theory Spec2Isabelle
  imports Main "HOL-Library.Word"
begin

section \<open>Proof verification gate (package sp1)\<close>

text \<open>
  The Go function \<open>VerifySp1Proof\<close> takes a fixed-size array
  \<open>[MAX_PROOF_SIZE]byte\<close> and a \<open>uint\<close>, takes the address of the first array
  element and calls the C function \<open>verify_sp1_proof_ffi\<close> with that pointer and the
  length converted to a C \<open>unsigned int\<close>.

  The array is a list of bytes whose length is \<open>MAX_PROOF_SIZE\<close> (stated as a
  hypothesis where it matters). Go's \<open>uint\<close> is 64 bits wide on the platforms named
  in the cgo directives (darwin, linux), C's \<open>unsigned int\<close> is 32 bits wide; the
  conversion \<open>(C.uint)(proofLen)\<close> keeps the low 32 bits.

  The C verifier is outside the repository: it is a parameter of the model. It receives
  the memory the pointer refers to (the buffer) and the length. To observe whether and
  how it is called, the model returns the list of calls made next to the result.
\<close>

type_synonym byte = "8 word"

type_synonym ffi_verifier = "byte list \<Rightarrow> 32 word \<Rightarrow> bool"

type_synonym ffi_call = "byte list \<times> 32 word"

definition MAX_PROOF_SIZE :: nat where
  "MAX_PROOF_SIZE = 1024 * 1024"

definition VerifySp1Proof ::
  "ffi_verifier \<Rightarrow> byte list \<Rightarrow> 64 word \<Rightarrow> bool \<times> ffi_call list" where
  "VerifySp1Proof verify_sp1_proof_ffi proofBuffer proofLen =
     (let proofPtr = proofBuffer;
          cLen = (ucast proofLen :: 32 word)
      in (verify_sp1_proof_ffi proofPtr cLen, [(proofPtr, cLen)]))"

text \<open>The bytes a call designates: the first \<open>n\<close> bytes behind the pointer.\<close>

definition forwarded_bytes :: "ffi_call \<Rightarrow> byte list" where
  "forwarded_bytes c = take (unat (snd c)) (fst c)"

text \<open>
  The outcome the specification asks for when the length is out of range: the result is
  \<open>false\<close> and the verifier has not been called.
\<close>

definition rejected_without_call :: "bool \<times> ffi_call list \<Rightarrow> bool" where
  "rejected_without_call r = (fst r = False \<and> snd r = [])"

section \<open>Runtime configuration (package config)\<close>

subsection \<open>Library functions called by \<open>NewConfig\<close>\<close>

text \<open>
  \<open>NewConfig\<close> calls three pure functions of libraries outside the repository whose
  results decide the claims: \<open>common.HexToAddress\<close> and \<open>crypto.HexToECDSA\<close> of
  go-ethereum, which both rest on \<open>hex.DecodeString\<close> of Go's standard library. They are
  written out here after the libraries' own definitions:
  \<^item> \<open>hex.DecodeString\<close> decodes pairs of hexadecimal digits; at the first bad byte it
    returns the bytes decoded so far and \<open>InvalidByteError\<close>, at an odd length
    \<open>ErrLength\<close>;
  \<^item> \<open>HexToECDSA\<close> decodes the string, demands exactly 32 bytes and a scalar \<open>D\<close>
    with \<open>0 < D < N\<close> for the group order \<open>N\<close> of secp256k1;
  \<^item> \<open>HexToAddress\<close> strips an optional \<open>0x\<close>/\<open>0X\<close>, pads an odd number of digits
    with a leading \<open>0\<close>, decodes (dropping any decoding error) and keeps the last 20
    bytes, left-padded with zeros. An address is a 160-bit word.
  A private key is represented by its scalar. All other library calls (file access,
  logger, chain clients, public-key derivation, signer) are parameters of the model,
  collected in the record \<open>environment\<close> below.
\<close>

type_synonym address = "160 word"

datatype go_error =
    InvalidHexCharacter char
  | InvalidHexData
  | InvalidKeyLength nat
  | InvalidKeyGeN
  | InvalidKeyZeroOrNegative
  | LibraryError string

datatype hex_error = InvalidByteError char | ErrLength

definition fromHexChar :: "char \<Rightarrow> nat option" where
  "fromHexChar c =
     (let n = (of_char c :: nat)
      in if 48 \<le> n \<and> n \<le> 57 then Some (n - 48)
         else if 97 \<le> n \<and> n \<le> 102 then Some (n - 97 + 10)
         else if 65 \<le> n \<and> n \<le> 70 then Some (n - 65 + 10)
         else None)"

fun hex_DecodeString :: "string \<Rightarrow> byte list \<times> hex_error option" where
  "hex_DecodeString [] = ([], None)"
| "hex_DecodeString [p] =
     (case fromHexChar p of
        None \<Rightarrow> ([], Some (InvalidByteError p))
      | Some a \<Rightarrow> ([], Some ErrLength))"
| "hex_DecodeString (p # q # rest) =
     (case fromHexChar p of
        None \<Rightarrow> ([], Some (InvalidByteError p))
      | Some a \<Rightarrow>
          (case fromHexChar q of
             None \<Rightarrow> ([], Some (InvalidByteError q))
           | Some b \<Rightarrow>
               (case hex_DecodeString rest of
                  (bs, e) \<Rightarrow> (word_of_nat (a * 16 + b) # bs, e))))"

definition big_SetBytes :: "byte list \<Rightarrow> int" where
  "big_SetBytes bs = foldl (\<lambda>acc b. acc * 256 + uint b) 0 bs"

definition secp256k1N :: int where
  "secp256k1N =
     115792089237316195423570985008687907852837564279074904382605163141518161494337"

definition ToECDSA :: "byte list \<Rightarrow> go_error + int" where
  "ToECDSA d =
     (if 8 * length d \<noteq> 256 then Inl (InvalidKeyLength 256)
      else let D = big_SetBytes d
           in if D \<ge> secp256k1N then Inl InvalidKeyGeN
              else if D \<le> 0 then Inl InvalidKeyZeroOrNegative
              else Inr D)"

definition HexToECDSA :: "string \<Rightarrow> go_error + int" where
  "HexToECDSA hexkey =
     (case hex_DecodeString hexkey of
        (b, Some (InvalidByteError c)) \<Rightarrow> Inl (InvalidHexCharacter c)
      | (b, Some ErrLength) \<Rightarrow> Inl InvalidHexData
      | (b, None) \<Rightarrow> ToECDSA b)"

definition has0xPrefix :: "string \<Rightarrow> bool" where
  "has0xPrefix str =
     (length str \<ge> 2 \<and> str ! 0 = CHR ''0'' \<and> (str ! 1 = CHR ''x'' \<or> str ! 1 = CHR ''X''))"

definition FromHex :: "string \<Rightarrow> byte list" where
  "FromHex s =
     (let s1 = (if has0xPrefix s then drop 2 s else s);
          s2 = (if length s1 mod 2 = 1 then CHR ''0'' # s1 else s1)
      in fst (hex_DecodeString s2))"

definition BytesToAddress :: "byte list \<Rightarrow> address" where
  "BytesToAddress b =
     (let b' = (if length b > 20 then drop (length b - 20) b else b)
      in word_of_int (big_SetBytes b'))"

definition HexToAddress :: "string \<Rightarrow> address" where
  "HexToAddress s = BytesToAddress (FromHex s)"

subsection \<open>Data\<close>

text \<open>
  The structs of \<open>config.go\<close>. Field names of the three raw structs carry the suffix
  \<open>_raw\<close>, since several of them are also field names of \<open>Config\<close>. Pointer and
  interface fields of \<open>Config\<close> are options (\<open>None\<close> for \<open>nil\<close>).
\<close>

record ConfigRaw =
  Environment_raw :: string
  EthRpcUrl_raw :: string
  EthWsUrl_raw :: string
  AggregatorServerIpPortAddr_raw :: string
  RegisterOperatorOnStartup_raw :: bool
  BLSPubkeyCompendiumAddr_raw :: string
  AvsServiceManagerAddress_raw :: string
  EnableMetrics_raw :: bool

record AlignedLayerContractsRaw =
  AlignedLayerServiceManagerAddr_raw :: string

record AlignedLayerDeploymentRaw =
  Addresses :: AlignedLayerContractsRaw

record SharedAvsContractsRaw =
  BlsOperatorStateRetrieverAddr_raw :: string

datatype Logger = ZapLogger string
datatype EthClient = EthClient string
datatype Signer = PrivateKeySigner int int

record Config =
  EcdsaPrivateKey :: "int option"
  BlsPrivateKey :: "int option"
  Logger :: "Logger option"
  EigenMetricsIpPortAddress :: string
  EthRpcUrl :: string
  EthHttpClient :: "EthClient option"
  EthWsClient :: "EthClient option"
  BlsOperatorStateRetrieverAddr :: address
  AlignedLayerServiceManagerAddr :: address
  BlsPublicKeyCompendiumAddress :: address
  SlasherAddr :: address
  AggregatorServerIpPortAddr :: string
  RegisterOperatorOnStartup :: bool
  Signer :: "Signer option"
  OperatorAddress :: address
  AVSServiceManagerAddress :: address
  EnableMetrics :: bool

text \<open>Zero values of the raw structs, as \<open>var x T\<close> leaves them.\<close>

definition ConfigRaw_zero :: ConfigRaw where
  "ConfigRaw_zero =
     \<lparr>Environment_raw = '''', EthRpcUrl_raw = '''', EthWsUrl_raw = '''',
      AggregatorServerIpPortAddr_raw = '''', RegisterOperatorOnStartup_raw = False,
      BLSPubkeyCompendiumAddr_raw = '''', AvsServiceManagerAddress_raw = '''',
      EnableMetrics_raw = False\<rparr>"

definition AlignedLayerDeploymentRaw_zero :: AlignedLayerDeploymentRaw where
  "AlignedLayerDeploymentRaw_zero =
     \<lparr>Addresses = \<lparr>AlignedLayerServiceManagerAddr_raw = ''''\<rparr>\<rparr>"

definition SharedAvsContractsRaw_zero :: SharedAvsContractsRaw where
  "SharedAvsContractsRaw_zero = \<lparr>BlsOperatorStateRetrieverAddr_raw = ''''\<rparr>"

text \<open>The \<open>Name\<close> fields of the four required flags.\<close>

definition ConfigFileFlag_Name :: string where
  "ConfigFileFlag_Name = ''config''"

definition AlignedLayerDeploymentFileFlag_Name :: string where
  "AlignedLayerDeploymentFileFlag_Name = ''aligned-layer-deployment''"

definition SharedAvsContractsDeploymentFileFlag_Name :: string where
  "SharedAvsContractsDeploymentFileFlag_Name = ''shared-avs-contracts-deployment''"

definition EcdsaPrivateKeyFlag_Name :: string where
  "EcdsaPrivateKeyFlag_Name = ''ecdsa-private-key''"

subsection \<open>Outcomes, effects and the environment\<close>

text \<open>
  A call of \<open>NewConfig\<close> ends in one of four ways: it returns a configuration, it
  returns \<open>nil\<close> and an error, it panics, or a library function it calls terminates the
  process. Next to the outcome the model returns the list of calls made to the outside
  world, in order, so that "this step was never reached" can be stated.

  \<open>sdkutils.ReadYamlConfig\<close> and \<open>sdkutils.ReadJsonConfig\<close> fill the struct they are
  given; the error they return is dropped by \<open>NewConfig\<close>. Their result in the model is
  the struct after the call, or the termination of the process.

  \<open>os.Stat\<close> matters through \<open>errors.Is(err, os.ErrNotExist)\<close> only: its result is
  no error, \<open>ErrNotExist\<close> (\<open>ENOENT\<close>), or some other error. Among the other errors,
  \<open>ErrNotDir\<close> (\<open>ENOTDIR\<close>: a component of the path is not a directory) is kept apart:
  nothing exists at such a path either, and \<open>errors.Is(err, os.ErrNotExist)\<close> is false
  for it.
\<close>

datatype panic = PanicString string | SliceBoundsOutOfRange nat nat

datatype 'a outcome = Return 'a | ReturnErr go_error | Panic panic | ProcessExit string

datatype 'a lib_result = LibReturned 'a | LibExit string

datatype stat_error = ErrNotExist | ErrNotDir | ErrOther

datatype effect =
    Call_ReadYamlConfig string
  | Call_Println ConfigRaw
  | Call_Stat string
  | Call_ReadJsonConfig string
  | Call_NewZapLogger string
  | Call_NewClient string
  | Call_LoggerError string
  | Call_EcdsaPrivateKeyToAddress int
  | Call_ChainID EthClient
  | Call_NewPrivateKeySigner int int

type_synonym cli_Context = "string \<Rightarrow> string"

text \<open>
  Line 93 of \<open>config.go\<close> reads \<open>sdkutils.ReadJsonConfig(alignedLayerDeploymentFilePath,
  &alignedLayerDeploymentRaw)\<close>, but the function declares neither name: the locals of
  lines 88 and 89 are \<open>credibleSquaringDeploymentRaw\<close> and
  \<open>credibleSquaringDeploymentFilePath\<close>, and it is the former that line 154 reads.
  What the two names denote is a parameter of the model: either the two locals
  (\<open>TheLocals\<close>), or two package-level variables declared in a file that is not at hand
  (\<open>PackageLevel path raw\<close>, with their values), in which case the local keeps its zero
  value. Every theorem below holds for both.
\<close>

datatype undeclared_names = TheLocals | PackageLevel string AlignedLayerDeploymentRaw

record environment =
  ReadYamlConfig :: "string \<Rightarrow> ConfigRaw \<Rightarrow> ConfigRaw lib_result"
  ReadJsonConfig_deployment ::
    "string \<Rightarrow> AlignedLayerDeploymentRaw \<Rightarrow> AlignedLayerDeploymentRaw lib_result"
  ReadJsonConfig_shared ::
    "string \<Rightarrow> SharedAvsContractsRaw \<Rightarrow> SharedAvsContractsRaw lib_result"
  os_Stat :: "string \<Rightarrow> stat_error option"
  NewZapLogger :: "string \<Rightarrow> go_error + Logger"
  eth_NewClient :: "string \<Rightarrow> go_error + EthClient"
  EcdsaPrivateKeyToAddress :: "int \<Rightarrow> go_error + address"
  ChainID :: "EthClient \<Rightarrow> go_error + int"
  NewPrivateKeySigner :: "int \<Rightarrow> int \<Rightarrow> go_error + Signer"
  alignedLayerDeployment_names :: undeclared_names

type_synonym 'a io = "effect list \<Rightarrow> 'a outcome \<times> effect list"

definition io_return :: "'a \<Rightarrow> 'a io" where
  "io_return a t = (Return a, t)"

definition io_fail :: "go_error \<Rightarrow> 'a io" where
  "io_fail e t = (ReturnErr e, t)"

definition io_panic :: "panic \<Rightarrow> 'a io" where
  "io_panic p t = (Panic p, t)"

definition io_call :: "effect \<Rightarrow> 'a \<Rightarrow> 'a io" where
  "io_call e a t = (Return a, t @ [e])"

definition io_call_lib :: "effect \<Rightarrow> 'a lib_result \<Rightarrow> 'a io" where
  "io_call_lib e r t =
     (case r of
        LibReturned a \<Rightarrow> (Return a, t @ [e])
      | LibExit m \<Rightarrow> (ProcessExit m, t @ [e]))"

definition io_bind :: "'a io \<Rightarrow> ('a \<Rightarrow> 'b io) \<Rightarrow> 'b io" where
  "io_bind m f t =
     (case m t of
        (Return a, t') \<Rightarrow> f a t'
      | (ReturnErr e, t') \<Rightarrow> (ReturnErr e, t')
      | (Panic p, t') \<Rightarrow> (Panic p, t')
      | (ProcessExit s, t') \<Rightarrow> (ProcessExit s, t'))"

subsection \<open>\<open>NewConfig\<close> and \<open>validate\<close>\<close>

text \<open>
  Go's slice expressions \<open>s[:j]\<close> and \<open>s[i:]\<close> on a string panic when the bound exceeds
  the length.
\<close>

definition go_slice_to :: "string \<Rightarrow> nat \<Rightarrow> panic + string" where
  "go_slice_to s j =
     (if j \<le> length s then Inr (take j s) else Inl (SliceBoundsOutOfRange j (length s)))"

definition go_slice_from :: "string \<Rightarrow> nat \<Rightarrow> panic + string" where
  "go_slice_from s i =
     (if i \<le> length s then Inr (drop i s) else Inl (SliceBoundsOutOfRange i (length s)))"

text \<open>
  Lines 120 to 123 of \<open>NewConfig\<close>: the prefix test, the stripping and the call of
  \<open>crypto.HexToECDSA\<close>. The result is a panic, or what \<open>HexToECDSA\<close> returns.
\<close>

definition ecdsaPrivateKeyFromString :: "string \<Rightarrow> panic + (go_error + int)" where
  "ecdsaPrivateKeyFromString ecdsaPrivateKeyString =
     (case go_slice_to ecdsaPrivateKeyString 2 of
        Inl p \<Rightarrow> Inl p
      | Inr prefix \<Rightarrow>
          (case (if prefix = ''0x'' then go_slice_from ecdsaPrivateKeyString 2
                 else Inr ecdsaPrivateKeyString) of
             Inl p \<Rightarrow> Inl p
           | Inr ecdsaPrivateKeyString' \<Rightarrow> Inr (HexToECDSA ecdsaPrivateKeyString')))"

definition validate :: "Config \<Rightarrow> panic + unit" where
  "validate c =
     (if BlsOperatorStateRetrieverAddr c = HexToAddress ''''
      then Inl (PanicString ''Config: BLSOperatorStateRetrieverAddr is required'')
      else if AlignedLayerServiceManagerAddr c = HexToAddress ''''
      then Inl (PanicString ''Config: AlignedLayerServiceManagerAddr is required'')
      else Inr ())"

definition NewConfig :: "environment \<Rightarrow> cli_Context \<Rightarrow> Config io" where
  "NewConfig env ctx =
    (let configFilePath = ctx ConfigFileFlag_Name in
     io_bind (if configFilePath \<noteq> ''''
              then io_call_lib (Call_ReadYamlConfig configFilePath)
                     (ReadYamlConfig env configFilePath ConfigRaw_zero)
              else io_return ConfigRaw_zero) (\<lambda>configRaw.
     io_bind (io_call (Call_Println configRaw) ()) (\<lambda>_.
     let credibleSquaringDeploymentFilePath = ctx AlignedLayerDeploymentFileFlag_Name in
     io_bind (io_call (Call_Stat credibleSquaringDeploymentFilePath)
                (os_Stat env credibleSquaringDeploymentFilePath)) (\<lambda>err.
     if err = Some ErrNotExist
     then io_panic (PanicString
            (''Path '' @ credibleSquaringDeploymentFilePath @ '' does not exist''))
     else
     io_bind
       (case alignedLayerDeployment_names env of
          TheLocals \<Rightarrow>
            io_call_lib (Call_ReadJsonConfig credibleSquaringDeploymentFilePath)
              (ReadJsonConfig_deployment env credibleSquaringDeploymentFilePath
                 AlignedLayerDeploymentRaw_zero)
        | PackageLevel alignedLayerDeploymentFilePath alignedLayerDeploymentRaw \<Rightarrow>
            io_bind
              (io_call_lib (Call_ReadJsonConfig alignedLayerDeploymentFilePath)
                 (ReadJsonConfig_deployment env alignedLayerDeploymentFilePath
                    alignedLayerDeploymentRaw))
              (\<lambda>_. io_return AlignedLayerDeploymentRaw_zero))
       (\<lambda>credibleSquaringDeploymentRaw.
     let sharedAvsContractsDeploymentFilePath =
           ctx SharedAvsContractsDeploymentFileFlag_Name in
     io_bind (io_call (Call_Stat sharedAvsContractsDeploymentFilePath)
                (os_Stat env sharedAvsContractsDeploymentFilePath)) (\<lambda>err.
     if err = Some ErrNotExist
     then io_panic (PanicString
            (''Path '' @ sharedAvsContractsDeploymentFilePath @ '' does not exist''))
     else
     io_bind (io_call_lib (Call_ReadJsonConfig sharedAvsContractsDeploymentFilePath)
                (ReadJsonConfig_shared env sharedAvsContractsDeploymentFilePath
                   SharedAvsContractsRaw_zero)) (\<lambda>sharedAvsContractsDeploymentRaw.
     io_bind (io_call (Call_NewZapLogger (Environment_raw configRaw))
                (NewZapLogger env (Environment_raw configRaw))) (\<lambda>r.
     case r of Inl err \<Rightarrow> io_fail err | Inr logger \<Rightarrow>
     io_bind (io_call (Call_NewClient (EthRpcUrl_raw configRaw))
                (eth_NewClient env (EthRpcUrl_raw configRaw))) (\<lambda>r.
     case r of
       Inl err \<Rightarrow>
         io_bind (io_call (Call_LoggerError ''Cannot create http ethclient'') ())
           (\<lambda>_. io_fail err)
     | Inr ethRpcClient \<Rightarrow>
     io_bind (io_call (Call_NewClient (EthWsUrl_raw configRaw))
                (eth_NewClient env (EthWsUrl_raw configRaw))) (\<lambda>r.
     case r of
       Inl err \<Rightarrow>
         io_bind (io_call (Call_LoggerError ''Cannot create ws ethclient'') ())
           (\<lambda>_. io_fail err)
     | Inr ethWsClient \<Rightarrow>
     (case ecdsaPrivateKeyFromString (ctx EcdsaPrivateKeyFlag_Name) of
       Inl p \<Rightarrow> io_panic p
     | Inr (Inl err) \<Rightarrow>
         io_bind (io_call (Call_LoggerError ''Cannot parse ecdsa private key'') ())
           (\<lambda>_. io_fail err)
     | Inr (Inr ecdsaPrivateKey) \<Rightarrow>
     io_bind (io_call (Call_EcdsaPrivateKeyToAddress ecdsaPrivateKey)
                (EcdsaPrivateKeyToAddress env ecdsaPrivateKey)) (\<lambda>r.
     case r of
       Inl err \<Rightarrow>
         io_bind (io_call (Call_LoggerError ''Cannot get operator address'') ())
           (\<lambda>_. io_fail err)
     | Inr operatorAddr \<Rightarrow>
     io_bind (io_call (Call_ChainID ethRpcClient) (ChainID env ethRpcClient)) (\<lambda>r.
     case r of
       Inl err \<Rightarrow>
         io_bind (io_call (Call_LoggerError ''Cannot get chainId'') ())
           (\<lambda>_. io_fail err)
     | Inr chainId \<Rightarrow>
     io_bind (io_call (Call_NewPrivateKeySigner ecdsaPrivateKey chainId)
                (NewPrivateKeySigner env ecdsaPrivateKey chainId)) (\<lambda>r.
     case r of
       Inl err \<Rightarrow>
         io_bind (io_call (Call_LoggerError ''Cannot create signer'') ())
           (\<lambda>_. io_fail err)
     | Inr privateKeySigner \<Rightarrow>
     let config =
           \<lparr>EcdsaPrivateKey = Some ecdsaPrivateKey,
            BlsPrivateKey = None,
            Logger = Some logger,
            EigenMetricsIpPortAddress = '''',
            EthRpcUrl = EthRpcUrl_raw configRaw,
            EthHttpClient = Some ethRpcClient,
            EthWsClient = Some ethWsClient,
            BlsOperatorStateRetrieverAddr =
              HexToAddress (BlsOperatorStateRetrieverAddr_raw sharedAvsContractsDeploymentRaw),
            AlignedLayerServiceManagerAddr =
              HexToAddress
                (AlignedLayerServiceManagerAddr_raw (Addresses credibleSquaringDeploymentRaw)),
            BlsPublicKeyCompendiumAddress =
              HexToAddress (BLSPubkeyCompendiumAddr_raw configRaw),
            SlasherAddr = HexToAddress '''',
            AggregatorServerIpPortAddr = AggregatorServerIpPortAddr_raw configRaw,
            RegisterOperatorOnStartup = RegisterOperatorOnStartup_raw configRaw,
            Signer = Some privateKeySigner,
            OperatorAddress = operatorAddr,
            AVSServiceManagerAddress =
              HexToAddress (AvsServiceManagerAddress_raw configRaw),
            EnableMetrics = EnableMetrics_raw configRaw\<rparr>
     in (case validate config of
           Inl p \<Rightarrow> io_panic p
         | Inr u \<Rightarrow> io_return config)))))))))))))))"





section \<open>Contract provisioning script\<close>

text \<open>
  The Solidity script \<open>CredibleAlignedLayerDeployer\<close>. Its storage variables are the
  fields of the record \<open>deployer\<close>; contract-typed values are addresses. The three
  local variables that a later statement reads after other statements have run
  (\<open>emptyContract\<close>, \<open>deployed_addresses_output\<close>, \<open>finalJson\<close>) are fields as well.
  Next to them the record carries what the script does to the outside world:
  \<^item> \<open>txs\<close>, the chain operations performed so far, in order: a contract creation
    (\<open>new C(args)\<close>, with the address it returned) or a call to a deployed contract;
  \<^item> \<open>vm_json\<close>, the JSON objects that the cheatcodes \<open>vm.serializeAddress\<close> and
    \<open>vm.serializeString\<close> build up under an object key; each returns the object built
    so far, and a value that is itself a serialized object is nested as an object;
  \<^item> \<open>written\<close>, the calls of \<open>writeOutput\<close> (a helper of \<open>Utils.sol\<close>, which is
    not at hand: the model records the arguments of the call);
  \<^item> \<open>broadcasting\<close>, set by \<open>vm.startBroadcast\<close> and cleared by \<open>vm.stopBroadcast\<close>.

  The chain is a parameter: \<open>create_address ch n\<close> is the address a creation gets when
  it is the \<open>n\<close>-th chain operation of the run, and \<open>tx_succeeds ch n\<close> tells whether
  the \<open>n\<close>-th chain operation succeeds. A failing operation reverts, which ends the
  script: the result is \<open>None\<close>, and the record shows how far the run came. The inputs
  read in \<open>run\<close> (\<open>readOutput\<close>, \<open>stdJson.readAddress\<close>, \<open>msg.sender\<close>) are parameters
  as well. The data of \<open>abi.encodeWithSelector\<close> is the initializer named by the selector
  with its arguments; \<open>""\<close> is \<open>NoData\<close>. Unsigned integers are words of their width.
  The two internal functions lose their leading underscore.
\<close>

subsection \<open>Chain operations\<close>

record OperatorSetParam =
  maxOperatorCount :: "32 word"
  kickBIPsOfOperatorStake :: "16 word"
  kickBIPsOfTotalStake :: "16 word"

record StrategyAndWeightingMultiplier =
  strategy :: address
  multiplier :: "96 word"

datatype calldata =
    NoData
  | StrategyBaseTVLLimits_initialize "256 word" "256 word" address address
  | StakeRegistry_initialize "96 word list" "StrategyAndWeightingMultiplier list list"
  | BLSRegistryCoordinatorWithIndices_initialize
      address address "OperatorSetParam list" address "256 word"
  | AlignedLayerServiceManager_initialize address address
  | AlignedLayerTaskManager_initialize address address address address "256 word"

datatype creation =
    New_ERC20Mock
  | New_TransparentUpgradeableProxy address address calldata
  | New_ProxyAdmin
  | New_PauserRegistry "address list" address
  | New_EmptyContract
  | New_StakeRegistry address address address
  | New_BLSRegistryCoordinatorWithIndices address address address address address
  | New_BLSPubkeyRegistry address address
  | New_IndexRegistry address
  | New_AlignedLayerServiceManager address address address
  | New_AlignedLayerTaskManager address "32 word"

datatype call =
    addStrategiesToDepositWhitelist "address list"
  | upgradeAndCall address address calldata
  | upgrade address address

datatype tx = Create creation address | CallTo address call

datatype json = JAddress address | JObject "(string \<times> json) list"

record chain =
  create_address :: "nat \<Rightarrow> address"
  tx_succeeds :: "nat \<Rightarrow> bool"

record script_inputs =
  readOutput :: "string \<Rightarrow> string"
  stdJson_readAddress :: "string \<Rightarrow> string \<Rightarrow> address"
  msg_sender :: address

record deployer =
  erc20Mock :: address
  erc20MockStrategy :: address
  credibleAlignedLayerProxyAdmin :: address
  credibleAlignedLayerPauserReg :: address
  registryCoordinator :: address
  registryCoordinatorImplementation :: address
  blsPubkeyRegistry :: address
  blsPubkeyRegistryImplementation :: address
  indexRegistry :: address
  indexRegistryImplementation :: address
  stakeRegistry :: address
  stakeRegistryImplementation :: address
  credibleAlignedLayerServiceManager :: address
  credibleAlignedLayerServiceManagerImplementation :: address
  credibleAlignedLayerTaskManager :: address
  credibleAlignedLayerTaskManagerImplementation :: address
  emptyContract :: address
  deployed_addresses_output :: json
  finalJson :: json
  broadcasting :: bool
  txs :: "tx list"
  vm_json :: "string \<Rightarrow> (string \<times> json) list"
  written :: "(json \<times> string) list"

definition deployer_init :: deployer where
  "deployer_init =
     \<lparr>erc20Mock = 0, erc20MockStrategy = 0,
      credibleAlignedLayerProxyAdmin = 0, credibleAlignedLayerPauserReg = 0,
      registryCoordinator = 0, registryCoordinatorImplementation = 0,
      blsPubkeyRegistry = 0, blsPubkeyRegistryImplementation = 0,
      indexRegistry = 0, indexRegistryImplementation = 0,
      stakeRegistry = 0, stakeRegistryImplementation = 0,
      credibleAlignedLayerServiceManager = 0,
      credibleAlignedLayerServiceManagerImplementation = 0,
      credibleAlignedLayerTaskManager = 0,
      credibleAlignedLayerTaskManagerImplementation = 0,
      emptyContract = 0, deployed_addresses_output = JObject [], finalJson = JObject [],
      broadcasting = False, txs = [], vm_json = (\<lambda>k. []), written = []\<rparr>"

subsection \<open>Statements\<close>

text \<open>
  A statement takes the record to the record after it, or reverts. A function body is
  the sequence of its statements: \<open>sc_seq\<close> runs them in order and stops at the first
  that reverts.
\<close>

type_synonym script = "deployer \<Rightarrow> unit option \<times> deployer"

fun sc_seq :: "script list \<Rightarrow> script" where
  "sc_seq [] s = (Some (), s)"
| "sc_seq (m # ms) s = (case m s of (None, s') \<Rightarrow> (None, s') | (Some u, s') \<Rightarrow> sc_seq ms s')"

text \<open>
  \<open>x = new C(args)\<close>: the arguments are read from the current record, the creation is
  the next chain operation, and the address it returns is stored by \<open>store\<close>.
\<close>

definition new_assign ::
  "chain \<Rightarrow> (deployer \<Rightarrow> creation) \<Rightarrow> (address \<Rightarrow> deployer \<Rightarrow> deployer) \<Rightarrow> script" where
  "new_assign ch args store s =
     (let n = length (txs s)
      in if tx_succeeds ch n
         then (Some (),
               store (create_address ch n)
                 (s\<lparr>txs := txs s @ [Create (args s) (create_address ch n)]\<rparr>))
         else (None, s))"

text \<open>A call to a deployed contract; target and arguments are read from the record.\<close>

definition external_call :: "chain \<Rightarrow> (deployer \<Rightarrow> address \<times> call) \<Rightarrow> script" where
  "external_call ch target_call s =
     (let n = length (txs s)
      in if tx_succeeds ch n
         then (Some (), s\<lparr>txs := txs s @ [CallTo (fst (target_call s)) (snd (target_call s))]\<rparr>)
         else (None, s))"

text \<open>A call of an internal function whose arguments are read from the record.\<close>

definition internal_call :: "(deployer \<Rightarrow> script) \<Rightarrow> script" where
  "internal_call f s = f s s"

subsection \<open>Cheatcodes and helpers\<close>

fun json_insert :: "string \<Rightarrow> json \<Rightarrow> (string \<times> json) list \<Rightarrow> (string \<times> json) list" where
  "json_insert k v [] = [(k, v)]"
| "json_insert k v (p # ps) = (if fst p = k then (k, v) # ps else p # json_insert k v ps)"

text \<open>
  \<open>vm.serializeAddress(objectKey, valueKey, value)\<close> and \<open>vm.serializeString\<close>: the value
  is read from the record, and the object returned is handed to \<open>store\<close>; a statement
  that drops the result stores with \<open>discard\<close>.
\<close>

definition discard :: "json \<Rightarrow> deployer \<Rightarrow> deployer" where
  "discard j s = s"

definition vm_serializeAddress ::
  "string \<Rightarrow> string \<Rightarrow> (deployer \<Rightarrow> address) \<Rightarrow> (json \<Rightarrow> deployer \<Rightarrow> deployer) \<Rightarrow> script" where
  "vm_serializeAddress objectKey valueKey v store s =
     (let obj = json_insert valueKey (JAddress (v s)) (vm_json s objectKey)
      in (Some (), store (JObject obj) (s\<lparr>vm_json := (vm_json s)(objectKey := obj)\<rparr>)))"

definition vm_serializeString ::
  "string \<Rightarrow> string \<Rightarrow> (deployer \<Rightarrow> json) \<Rightarrow> (json \<Rightarrow> deployer \<Rightarrow> deployer) \<Rightarrow> script" where
  "vm_serializeString objectKey valueKey v store s =
     (let obj = json_insert valueKey (v s) (vm_json s objectKey)
      in (Some (), store (JObject obj) (s\<lparr>vm_json := (vm_json s)(objectKey := obj)\<rparr>)))"

text \<open>
  Modelled from the spec: \<open>writeOutput\<close>, a helper of \<open>Utils.sol\<close> that is not among
  the sources. The specification calls what the orchestrator produces a deployment
  output manifest, a JSON object mapping component names to final on-chain addresses;
  the model records the JSON value the helper is given, with the file name.
\<close>

definition writeOutput :: "(deployer \<Rightarrow> json) \<Rightarrow> string \<Rightarrow> script" where
  "writeOutput outputJson outputFileName s =
     (Some (), s\<lparr>written := written s @ [(outputJson s, outputFileName)]\<rparr>)"

definition vm_startBroadcast :: script where
  "vm_startBroadcast s = (Some (), s\<lparr>broadcasting := True\<rparr>)"

definition vm_stopBroadcast :: script where
  "vm_stopBroadcast s = (Some (), s\<lparr>broadcasting := False\<rparr>)"

subsection \<open>The script\<close>

definition ether :: "256 word" where
  "ether = 10 ^ 18"

definition QUORUM_THRESHOLD_PERCENTAGE :: "256 word" where
  "QUORUM_THRESHOLD_PERCENTAGE = 100"

definition TASK_RESPONSE_WINDOW_BLOCK :: "32 word" where
  "TASK_RESPONSE_WINDOW_BLOCK = 30"

definition TASK_DURATION_BLOCKS :: "32 word" where
  "TASK_DURATION_BLOCKS = 0"

definition AGGREGATOR_ADDR :: address where
  "AGGREGATOR_ADDR = 918756735253610709936507276127632253845124912928"

definition TASK_GENERATOR_ADDR :: address where
  "TASK_GENERATOR_ADDR = 918756735253610709936507276127632253845124912928"

definition deployErc20AndStrategyAndWhitelistStrategy ::
  "chain \<Rightarrow> address \<Rightarrow> address \<Rightarrow> address \<Rightarrow> address \<Rightarrow> script" where
  "deployErc20AndStrategyAndWhitelistStrategy ch eigenLayerProxyAdmin eigenLayerPauserReg
       baseStrategyImplementation strategyManager =
     sc_seq
       [new_assign ch (\<lambda>s. New_ERC20Mock) (\<lambda>a s. s\<lparr>erc20Mock := a\<rparr>),
        new_assign ch
          (\<lambda>s. New_TransparentUpgradeableProxy
                 baseStrategyImplementation
                 eigenLayerProxyAdmin
                 (StrategyBaseTVLLimits_initialize
                    (1 * ether) (100 * ether) (erc20Mock s) eigenLayerPauserReg))
          (\<lambda>a s. s\<lparr>erc20MockStrategy := a\<rparr>),
        external_call ch
          (\<lambda>s. let strats = [erc20MockStrategy s]
               in (strategyManager, addStrategiesToDepositWhitelist strats))]"

definition deployCredibleAlignedLayerContracts ::
  "chain \<Rightarrow> address \<Rightarrow> address \<Rightarrow> address \<Rightarrow> address \<Rightarrow> address \<Rightarrow> address \<Rightarrow> address
     \<Rightarrow> script" where
  "deployCredibleAlignedLayerContracts ch strategyManager delegationManager slasher strat
       pubkeyCompendium credibleAlignedLayerCommunityMultisig credibleAlignedLayerPauser =
    (let deployedStrategyArray = [strat];
         numStrategies = length deployedStrategyArray;
         pausers = [credibleAlignedLayerPauser, credibleAlignedLayerCommunityMultisig];
         minimumStakeForQuorum = replicate numStrategies (0 :: 96 word);
         strategyAndWeightingMultipliers =
           map (\<lambda>i. [\<lparr>strategy = deployedStrategyArray ! i,
                       multiplier = ucast (1 * ether)\<rparr>])
             [0 ..< numStrategies];
         operatorSetParams =
           map (\<lambda>i. \<lparr>maxOperatorCount = 10000, kickBIPsOfOperatorStake = 15000,
                      kickBIPsOfTotalStake = 100\<rparr>)
             [0 ..< numStrategies];
         parent_object = ''parent object'';
         deployed_addresses = ''addresses''
     in sc_seq
       [new_assign ch (\<lambda>s. New_ProxyAdmin) (\<lambda>a s. s\<lparr>credibleAlignedLayerProxyAdmin := a\<rparr>),
        new_assign ch
          (\<lambda>s. New_PauserRegistry pausers credibleAlignedLayerCommunityMultisig)
          (\<lambda>a s. s\<lparr>credibleAlignedLayerPauserReg := a\<rparr>),
        new_assign ch (\<lambda>s. New_EmptyContract) (\<lambda>a s. s\<lparr>emptyContract := a\<rparr>),
        new_assign ch
          (\<lambda>s. New_TransparentUpgradeableProxy
                 (emptyContract s) (credibleAlignedLayerProxyAdmin s) NoData)
          (\<lambda>a s. s\<lparr>credibleAlignedLayerServiceManager := a\<rparr>),
        new_assign ch
          (\<lambda>s. New_TransparentUpgradeableProxy
                 (emptyContract s) (credibleAlignedLayerProxyAdmin s) NoData)
          (\<lambda>a s. s\<lparr>credibleAlignedLayerTaskManager := a\<rparr>),
        new_assign ch
          (\<lambda>s. New_TransparentUpgradeableProxy
                 (emptyContract s) (credibleAlignedLayerProxyAdmin s) NoData)
          (\<lambda>a s. s\<lparr>registryCoordinator := a\<rparr>),
        new_assign ch
          (\<lambda>s. New_TransparentUpgradeableProxy
                 (emptyContract s) (credibleAlignedLayerProxyAdmin s) NoData)
          (\<lambda>a s. s\<lparr>blsPubkeyRegistry := a\<rparr>),
        new_assign ch
          (\<lambda>s. New_TransparentUpgradeableProxy
                 (emptyContract s) (credibleAlignedLayerProxyAdmin s) NoData)
          (\<lambda>a s. s\<lparr>indexRegistry := a\<rparr>),
        new_assign ch
          (\<lambda>s. New_TransparentUpgradeableProxy
                 (emptyContract s) (credibleAlignedLayerProxyAdmin s) NoData)
          (\<lambda>a s. s\<lparr>stakeRegistry := a\<rparr>),
        new_assign ch
          (\<lambda>s. New_StakeRegistry (registryCoordinator s) strategyManager
                 (credibleAlignedLayerServiceManager s))
          (\<lambda>a s. s\<lparr>stakeRegistryImplementation := a\<rparr>),
        external_call ch
          (\<lambda>s. (credibleAlignedLayerProxyAdmin s,
                 upgradeAndCall (stakeRegistry s) (stakeRegistryImplementation s)
                   (StakeRegistry_initialize minimumStakeForQuorum
                      strategyAndWeightingMultipliers))),
        new_assign ch
          (\<lambda>s. New_BLSRegistryCoordinatorWithIndices slasher
                 (credibleAlignedLayerServiceManager s) (stakeRegistry s)
                 (blsPubkeyRegistry s) (indexRegistry s))
          (\<lambda>a s. s\<lparr>registryCoordinatorImplementation := a\<rparr>),
        external_call ch
          (\<lambda>s. (credibleAlignedLayerProxyAdmin s,
                 upgradeAndCall (registryCoordinator s) (registryCoordinatorImplementation s)
                   (BLSRegistryCoordinatorWithIndices_initialize
                      credibleAlignedLayerCommunityMultisig
                      credibleAlignedLayerCommunityMultisig
                      operatorSetParams
                      (credibleAlignedLayerPauserReg s)
                      0))),
        new_assign ch
          (\<lambda>s. New_BLSPubkeyRegistry (registryCoordinator s) pubkeyCompendium)
          (\<lambda>a s. s\<lparr>blsPubkeyRegistryImplementation := a\<rparr>),
        external_call ch
          (\<lambda>s. (credibleAlignedLayerProxyAdmin s,
                 upgrade (blsPubkeyRegistry s) (blsPubkeyRegistryImplementation s))),
        new_assign ch
          (\<lambda>s. New_IndexRegistry (registryCoordinator s))
          (\<lambda>a s. s\<lparr>indexRegistryImplementation := a\<rparr>),
        external_call ch
          (\<lambda>s. (credibleAlignedLayerProxyAdmin s,
                 upgrade (indexRegistry s) (indexRegistryImplementation s))),
        new_assign ch
          (\<lambda>s. New_AlignedLayerServiceManager (registryCoordinator s) slasher
                 (credibleAlignedLayerTaskManager s))
          (\<lambda>a s. s\<lparr>credibleAlignedLayerServiceManagerImplementation := a\<rparr>),
        external_call ch
          (\<lambda>s. (credibleAlignedLayerProxyAdmin s,
                 upgradeAndCall (credibleAlignedLayerServiceManager s)
                   (credibleAlignedLayerServiceManagerImplementation s)
                   (AlignedLayerServiceManager_initialize
                      (credibleAlignedLayerPauserReg s)
                      credibleAlignedLayerCommunityMultisig))),
        new_assign ch
          (\<lambda>s. New_AlignedLayerTaskManager (registryCoordinator s)
                 TASK_RESPONSE_WINDOW_BLOCK)
          (\<lambda>a s. s\<lparr>credibleAlignedLayerTaskManagerImplementation := a\<rparr>),
        external_call ch
          (\<lambda>s. (credibleAlignedLayerProxyAdmin s,
                 upgradeAndCall (credibleAlignedLayerTaskManager s)
                   (credibleAlignedLayerTaskManagerImplementation s)
                   (AlignedLayerTaskManager_initialize
                      (credibleAlignedLayerPauserReg s)
                      credibleAlignedLayerCommunityMultisig
                      AGGREGATOR_ADDR
                      TASK_GENERATOR_ADDR
                      QUORUM_THRESHOLD_PERCENTAGE))),
        vm_serializeAddress deployed_addresses ''erc20Mock'' erc20Mock discard,
        vm_serializeAddress deployed_addresses ''erc20MockStrategy'' erc20MockStrategy
          discard,
        vm_serializeAddress deployed_addresses ''alignedLayerServiceManager''
          credibleAlignedLayerServiceManager discard,
        vm_serializeAddress deployed_addresses ''alignedLayerServiceManagerImplementation''
          credibleAlignedLayerServiceManagerImplementation discard,
        vm_serializeAddress deployed_addresses ''alignedLayerTaskManager''
          credibleAlignedLayerTaskManager discard,
        vm_serializeAddress deployed_addresses ''alignedLayerTaskManagerImplementation''
          credibleAlignedLayerTaskManagerImplementation discard,
        vm_serializeAddress deployed_addresses ''registryCoordinator''
          registryCoordinator discard,
        vm_serializeAddress deployed_addresses ''registryCoordinatorImplementation''
          registryCoordinatorImplementation
          (\<lambda>j s. s\<lparr>deployed_addresses_output := j\<rparr>),
        vm_serializeString parent_object deployed_addresses deployed_addresses_output
          (\<lambda>j s. s\<lparr>finalJson := j\<rparr>),
        writeOutput finalJson ''aligned_layer_avs_deployment_output''])"

definition run :: "chain \<Rightarrow> script_inputs \<Rightarrow> script" where
  "run ch inp =
    (let eigenlayerDeployedContracts = readOutput inp ''eigenlayer_deployment_output'';
         sharedAvsDeployedContracts =
           readOutput inp ''shared_avs_contracts_deployment_output'';
         strategyManager =
           stdJson_readAddress inp eigenlayerDeployedContracts ''.addresses.strategyManager'';
         delegationManager =
           stdJson_readAddress inp eigenlayerDeployedContracts ''.addresses.delegation'';
         slasher =
           stdJson_readAddress inp eigenlayerDeployedContracts ''.addresses.slasher'';
         eigenLayerProxyAdmin =
           stdJson_readAddress inp eigenlayerDeployedContracts
             ''.addresses.eigenLayerProxyAdmin'';
         eigenLayerPauserReg =
           stdJson_readAddress inp eigenlayerDeployedContracts
             ''.addresses.eigenLayerPauserReg'';
         pubkeyCompendium =
           stdJson_readAddress inp sharedAvsDeployedContracts ''.blsPublicKeyCompendium'';
         baseStrategyImplementation =
           stdJson_readAddress inp eigenlayerDeployedContracts
             ''.addresses.baseStrategyImplementation'';
         credibleAlignedLayerCommunityMultisig = msg_sender inp;
         credibleAlignedLayerPauser = msg_sender inp
     in sc_seq
       [vm_startBroadcast,
        deployErc20AndStrategyAndWhitelistStrategy ch eigenLayerProxyAdmin
          eigenLayerPauserReg baseStrategyImplementation strategyManager,
        internal_call
          (\<lambda>s. deployCredibleAlignedLayerContracts ch strategyManager delegationManager
                 slasher (erc20MockStrategy s) pubkeyCompendium
                 credibleAlignedLayerCommunityMultisig credibleAlignedLayerPauser),
        vm_stopBroadcast])"

subsection \<open>Phases and components of a run\<close>

text \<open>
  A proxy shell is a transparent upgradeable proxy created without initializer data.
  The auxiliary resources are the mock ERC20 token, the proxy of its strategy (created
  with the initializer of \<open>StrategyBaseTVLLimits\<close>) and the registration of the strategy
  with the strategy manager's deposit whitelist.
\<close>

fun is_proxy_shell :: "tx \<Rightarrow> bool" where
  "is_proxy_shell (Create (New_TransparentUpgradeableProxy logic admin NoData) a) = True"
| "is_proxy_shell t = False"

fun is_auxiliary :: "tx \<Rightarrow> bool" where
  "is_auxiliary (Create New_ERC20Mock a) = True"
| "is_auxiliary (Create (New_TransparentUpgradeableProxy logic admin
                          (StrategyBaseTVLLimits_initialize x y token reg)) a) = True"
| "is_auxiliary (CallTo target (addStrategiesToDepositWhitelist strats)) = True"
| "is_auxiliary t = False"

text \<open>
  \<open>completes_before P Q tr\<close>: in the sequence \<open>tr\<close> the operations of phase \<open>P\<close> are
  over when phase \<open>Q\<close> begins, that is, no \<open>P\<close>-operation follows a \<open>Q\<close>-operation.
\<close>

fun completes_before :: "(tx \<Rightarrow> bool) \<Rightarrow> (tx \<Rightarrow> bool) \<Rightarrow> tx list \<Rightarrow> bool" where
  "completes_before P Q [] = True"
| "completes_before P Q (t # ts) = ((Q t \<longrightarrow> \<not> list_ex P ts) \<and> completes_before P Q ts)"

fun is_implementation_creation :: "tx \<Rightarrow> bool" where
  "is_implementation_creation (Create (New_StakeRegistry rc sm svc) a) = True"
| "is_implementation_creation
     (Create (New_BLSRegistryCoordinatorWithIndices sl svc sr bpr ir) a) = True"
| "is_implementation_creation (Create (New_BLSPubkeyRegistry rc pc) a) = True"
| "is_implementation_creation (Create (New_IndexRegistry rc) a) = True"
| "is_implementation_creation (Create (New_AlignedLayerServiceManager rc sl tm) a) = True"
| "is_implementation_creation (Create (New_AlignedLayerTaskManager rc w) a) = True"
| "is_implementation_creation t = False"

text \<open>The proxies of the six upgradeable components, as the storage variables hold them.\<close>

definition upgradeable_components :: "deployer \<Rightarrow> address list" where
  "upgradeable_components s =
     [credibleAlignedLayerServiceManager s, credibleAlignedLayerTaskManager s,
      registryCoordinator s, blsPubkeyRegistry s, indexRegistry s, stakeRegistry s]"

definition empty_contracts :: "tx list \<Rightarrow> address list" where
  "empty_contracts tr =
     concat (map (\<lambda>t. case t of Create New_EmptyContract e \<Rightarrow> [e] | _ \<Rightarrow> []) tr)"

text \<open>
  \<open>shell_deployed s pre p\<close>: among the operations \<open>pre\<close>, the shared proxy admin has been
  created, and \<open>p\<close> has been created as a proxy without initializer data, bound to that
  admin and pointing at an \<open>EmptyContract\<close> created among \<open>pre\<close>.
\<close>

definition shell_deployed :: "deployer \<Rightarrow> tx list \<Rightarrow> address \<Rightarrow> bool" where
  "shell_deployed s pre p =
     (Create New_ProxyAdmin (credibleAlignedLayerProxyAdmin s) \<in> set pre \<and>
      list_ex (\<lambda>e. Create (New_TransparentUpgradeableProxy e
                             (credibleAlignedLayerProxyAdmin s) NoData) p \<in> set pre)
        (empty_contracts pre))"

text \<open>
  \<open>shells_first s pre tr\<close> scans \<open>tr\<close> with \<open>pre\<close> the operations already seen: at every
  creation of an implementation, the shells of all six components have been deployed.
\<close>

fun shells_first :: "deployer \<Rightarrow> tx list \<Rightarrow> tx list \<Rightarrow> bool" where
  "shells_first s pre [] = True"
| "shells_first s pre (t # ts) =
     ((is_implementation_creation t \<longrightarrow>
         list_all (shell_deployed s pre) (upgradeable_components s)) \<and>
      shells_first s (pre @ [t]) ts)"

text \<open>
  \<open>constructor_refs_ok s t\<close>: if \<open>t\<close> creates an implementation, every constructor
  argument that refers to an upgradeable component is the proxy address of that
  component.
\<close>

fun constructor_refs_ok :: "deployer \<Rightarrow> tx \<Rightarrow> bool" where
  "constructor_refs_ok s (Create (New_StakeRegistry rc sm svc) a) =
     (rc = registryCoordinator s \<and> svc = credibleAlignedLayerServiceManager s)"
| "constructor_refs_ok s (Create (New_BLSRegistryCoordinatorWithIndices sl svc sr bpr ir) a) =
     (svc = credibleAlignedLayerServiceManager s \<and> sr = stakeRegistry s \<and>
      bpr = blsPubkeyRegistry s \<and> ir = indexRegistry s)"
| "constructor_refs_ok s (Create (New_BLSPubkeyRegistry rc pc) a) =
     (rc = registryCoordinator s)"
| "constructor_refs_ok s (Create (New_IndexRegistry rc) a) = (rc = registryCoordinator s)"
| "constructor_refs_ok s (Create (New_AlignedLayerServiceManager rc sl tm) a) =
     (rc = registryCoordinator s \<and> tm = credibleAlignedLayerTaskManager s)"
| "constructor_refs_ok s (Create (New_AlignedLayerTaskManager rc w) a) =
     (rc = registryCoordinator s)"
| "constructor_refs_ok s t = True"

subsection \<open>The output manifest\<close>



text \<open>The components the specification lists for the manifest.\<close>

definition deployed_components :: "deployer \<Rightarrow> address list" where
  "deployed_components s =
     [credibleAlignedLayerServiceManager s, credibleAlignedLayerTaskManager s,
      registryCoordinator s, blsPubkeyRegistry s, indexRegistry s, stakeRegistry s,
      erc20Mock s, erc20MockStrategy s]"


section \<open>Concrete inputs\<close>

text \<open>A chain on which every operation succeeds and every creation gets a fresh address.\<close>

definition chain0 :: chain where
  "chain0 = \<lparr>create_address = (\<lambda>n. word_of_nat (4096 + n)), tx_succeeds = (\<lambda>n. True)\<rparr>"

definition inputs0 :: script_inputs where
  "inputs0 =
     \<lparr>readOutput = (\<lambda>name. name),
      stdJson_readAddress = (\<lambda>json key. word_of_nat (256 + length key)),
      msg_sender = 57005\<rparr>"

text \<open>
  An environment in which every file exists and every library call succeeds, and a
  command line for it. The two undeclared names of line 93 denote the locals.
\<close>

definition env0 :: environment where
  "env0 =
     \<lparr>ReadYamlConfig = (\<lambda>path raw. LibReturned
        \<lparr>Environment_raw = ''development'', EthRpcUrl_raw = ''http://localhost:8545'',
         EthWsUrl_raw = ''ws://localhost:8545'',
         AggregatorServerIpPortAddr_raw = ''localhost:8090'',
         RegisterOperatorOnStartup_raw = True,
         BLSPubkeyCompendiumAddr_raw = ''0x0c01'',
         AvsServiceManagerAddress_raw = ''0x0a55'',
         EnableMetrics_raw = False\<rparr>),
      ReadJsonConfig_deployment = (\<lambda>path raw. LibReturned
        \<lparr>Addresses = \<lparr>AlignedLayerServiceManagerAddr_raw = ''0x0a55''\<rparr>\<rparr>),
      ReadJsonConfig_shared = (\<lambda>path raw. LibReturned
        \<lparr>BlsOperatorStateRetrieverAddr_raw = ''0x0b15''\<rparr>),
      os_Stat = (\<lambda>path. None),
      NewZapLogger = (\<lambda>level. Inr (ZapLogger level)),
      eth_NewClient = (\<lambda>url. Inr (EthClient url)),
      EcdsaPrivateKeyToAddress = (\<lambda>k. Inr (word_of_int k)),
      ChainID = (\<lambda>client. Inr 31337),
      NewPrivateKeySigner = (\<lambda>k chainId. Inr (PrivateKeySigner k chainId)),
      alignedLayerDeployment_names = TheLocals\<rparr>"

definition key0 :: string where
  "key0 = ''ac0974bec39a17e36ba4a6b4d238ff944bacb478cbed5efcae784d7bf4f2ff80''"

definition ctx0 :: cli_Context where
  "ctx0 =
     (\<lambda>name. if name = ''config'' then ''aggregator.yaml''
             else if name = ''aligned-layer-deployment'' then ''deployment.json''
             else if name = ''shared-avs-contracts-deployment'' then ''shared.json''
             else if name = ''ecdsa-private-key'' then ''0x'' @ key0
             else '''')"

definition scalar0 :: int where
  "scalar0 = 77814517325470205911140941194401928579557062014761831930645393041380819009408"

text \<open>The configuration \<open>NewConfig\<close> returns for \<open>env0\<close> and \<open>ctx0\<close>.\<close>

definition config0 :: Config where
  "config0 =
     \<lparr>EcdsaPrivateKey = Some scalar0,
      BlsPrivateKey = None,
      Logger = Some (ZapLogger ''development''),
      EigenMetricsIpPortAddress = '''',
      EthRpcUrl = ''http://localhost:8545'',
      EthHttpClient = Some (EthClient ''http://localhost:8545''),
      EthWsClient = Some (EthClient ''ws://localhost:8545''),
      BlsOperatorStateRetrieverAddr = 2837,
      AlignedLayerServiceManagerAddr = 2645,
      BlsPublicKeyCompendiumAddress = 3073,
      SlasherAddr = 0,
      AggregatorServerIpPortAddr = ''localhost:8090'',
      RegisterOperatorOnStartup = True,
      Signer = Some (PrivateKeySigner scalar0 31337),
      OperatorAddress = word_of_int scalar0,
      AVSServiceManagerAddress = 2645,
      EnableMetrics = False\<rparr>"

text \<open>The same environment, except that the deployment manifest does not exist.\<close>

definition env_missing :: environment where
  "env_missing =
     env0\<lparr>os_Stat := (\<lambda>path. if path = ''deployment.json'' then Some ErrNotExist else None)\<rparr>"





text \<open>The chain operations of the run on \<open>chain0\<close> with \<open>inputs0\<close>, in order.\<close>

definition trace0 :: "tx list" where
  "trace0 =
     [Create New_ERC20Mock 4096,
      Create (New_TransparentUpgradeableProxy 293 287
                (StrategyBaseTVLLimits_initialize 1000000000000000000 100000000000000000000
                   4096 286)) 4097,
      CallTo 282 (addStrategiesToDepositWhitelist [4097]),
      Create New_ProxyAdmin 4099,
      Create (New_PauserRegistry [57005, 57005] 57005) 4100,
      Create New_EmptyContract 4101,
      Create (New_TransparentUpgradeableProxy 4101 4099 NoData) 4102,
      Create (New_TransparentUpgradeableProxy 4101 4099 NoData) 4103,
      Create (New_TransparentUpgradeableProxy 4101 4099 NoData) 4104,
      Create (New_TransparentUpgradeableProxy 4101 4099 NoData) 4105,
      Create (New_TransparentUpgradeableProxy 4101 4099 NoData) 4106,
      Create (New_TransparentUpgradeableProxy 4101 4099 NoData) 4107,
      Create (New_StakeRegistry 4104 282 4102) 4108,
      CallTo 4099
        (upgradeAndCall 4107 4108
           (StakeRegistry_initialize [0]
              [ [\<lparr>strategy = 4097, multiplier = 1000000000000000000\<rparr>] ])),
      Create (New_BLSRegistryCoordinatorWithIndices 274 4102 4107 4105 4106) 4110,
      CallTo 4099
        (upgradeAndCall 4104 4110
           (BLSRegistryCoordinatorWithIndices_initialize 57005 57005
              [\<lparr>maxOperatorCount = 10000, kickBIPsOfOperatorStake = 15000,
                kickBIPsOfTotalStake = 100\<rparr>]
              4100 0)),
      Create (New_BLSPubkeyRegistry 4104 279) 4112,
      CallTo 4099 (upgrade 4105 4112),
      Create (New_IndexRegistry 4104) 4114,
      CallTo 4099 (upgrade 4106 4114),
      Create (New_AlignedLayerServiceManager 4104 274 4103) 4116,
      CallTo 4099
        (upgradeAndCall 4102 4116 (AlignedLayerServiceManager_initialize 4100 57005)),
      Create (New_AlignedLayerTaskManager 4104 30) 4118,
      CallTo 4099
        (upgradeAndCall 4103 4118
           (AlignedLayerTaskManager_initialize 4100 57005
              918756735253610709936507276127632253845124912928
              918756735253610709936507276127632253845124912928 100))]"

text \<open>The manifest that run hands to \<open>writeOutput\<close>.\<close>

definition manifest0 :: json where
  "manifest0 =
     JObject
       [(''addresses'',
         JObject
           [(''erc20Mock'', JAddress 4096),
            (''erc20MockStrategy'', JAddress 4097),
            (''alignedLayerServiceManager'', JAddress 4102),
            (''alignedLayerServiceManagerImplementation'', JAddress 4116),
            (''alignedLayerTaskManager'', JAddress 4103),
            (''alignedLayerTaskManagerImplementation'', JAddress 4118),
            (''registryCoordinator'', JAddress 4104),
            (''registryCoordinatorImplementation'', JAddress 4110)])]"

section \<open>Theorems: proof verification gate\<close>

lemma MAX_PROOF_SIZE_value: "MAX_PROOF_SIZE = 1048576"
  by (simp add: MAX_PROOF_SIZE_def)

lemma ucast_len_in_range:
  fixes proofLen :: "64 word"
  assumes "unat proofLen \<le> MAX_PROOF_SIZE"
  shows "unat (ucast proofLen :: 32 word) = unat proofLen"
proof -
  have "unat proofLen < 2 ^ 32"
    using assms by (simp add: MAX_PROOF_SIZE_def)
  then show ?thesis
    by (simp add: unsigned_ucast_eq take_bit_nat_eq_self)
qed

text \<open>
  C1, as the specification states it, fails: a call with length 0, and a call with a
  length above the capacity, both invoke the verifier; whatever the verifier answers, the
  outcome is not "rejected without a call", and with a verifier that accepts, the gate
  returns \<open>true\<close>.
\<close>

theorem VerifySp1Proof_zero_length_counterexample:
  "\<not> rejected_without_call
       (VerifySp1Proof (\<lambda>p n. False) (replicate MAX_PROOF_SIZE 0) 0) \<and>
   \<not> rejected_without_call
       (VerifySp1Proof (\<lambda>p n. False) (replicate MAX_PROOF_SIZE 0) 1048577) \<and>
   VerifySp1Proof (\<lambda>p n. True) (replicate MAX_PROOF_SIZE 0) 0 =
     (True, [(replicate MAX_PROOF_SIZE 0, 0)])"
  by (simp add: rejected_without_call_def VerifySp1Proof_def)

text \<open>
  C1 (amended): for a length that is 0 or greater than the capacity, the gate makes no
  length check of its own: it calls the external verifier exactly once, with the buffer
  and the length converted to a C unsigned int, and returns the verifier's answer.
\<close>

theorem VerifySp1Proof_out_of_range:
  assumes "proofLen = 0 \<or> unat proofLen > MAX_PROOF_SIZE"
  shows "VerifySp1Proof ffi proofBuffer proofLen =
           (ffi proofBuffer (ucast proofLen), [(proofBuffer, ucast proofLen)])"
  by (simp add: VerifySp1Proof_def Let_def)

theorem VerifySp1Proof_out_of_range_witness:
  "((0 :: 64 word) = 0 \<or> unat (0 :: 64 word) > MAX_PROOF_SIZE) \<and>
   VerifySp1Proof (\<lambda>p n. n \<noteq> 0) (replicate MAX_PROOF_SIZE 0) 0 =
     (False, [(replicate MAX_PROOF_SIZE 0, 0)])"
  using VerifySp1Proof_out_of_range [of 0 "\<lambda>p n. n \<noteq> 0" "replicate MAX_PROOF_SIZE 0"]
  by simp

text \<open>
  C5: for \<open>0 < length \<le> capacity\<close> and a buffer of the fixed capacity, the gate calls
  the external verifier exactly once, the call designates exactly \<open>length\<close> bytes, the
  first \<open>length\<close> bytes of the supplied buffer, and the gate returns the verifier's
  boolean unchanged.
\<close>

theorem VerifySp1Proof_in_range:
  assumes "length proofBuffer = MAX_PROOF_SIZE"
    and "0 < unat proofLen" and "unat proofLen \<le> MAX_PROOF_SIZE"
  shows "\<exists>c. snd (VerifySp1Proof ffi proofBuffer proofLen) = [c] \<and>
             fst c = proofBuffer \<and>
             unat (snd c) = unat proofLen \<and>
             forwarded_bytes c = take (unat proofLen) proofBuffer \<and>
             length (forwarded_bytes c) = unat proofLen \<and>
             fst (VerifySp1Proof ffi proofBuffer proofLen) = ffi (fst c) (snd c)"
  using assms ucast_len_in_range [of proofLen]
  by (simp add: VerifySp1Proof_def forwarded_bytes_def Let_def)

theorem VerifySp1Proof_in_range_witness:
  "length (replicate MAX_PROOF_SIZE (7 :: byte)) = MAX_PROOF_SIZE \<and>
   0 < unat (3 :: 64 word) \<and> unat (3 :: 64 word) \<le> MAX_PROOF_SIZE \<and>
   (\<exists>c. snd (VerifySp1Proof (\<lambda>p n. n = 3) (replicate MAX_PROOF_SIZE 7) 3) = [c] \<and>
        forwarded_bytes c = [7, 7, 7] \<and>
        fst (VerifySp1Proof (\<lambda>p n. n = 3) (replicate MAX_PROOF_SIZE 7) 3) = True)"
proof -
  have h1: "length (replicate MAX_PROOF_SIZE (7 :: byte)) = MAX_PROOF_SIZE" by simp
  have h2: "0 < unat (3 :: 64 word)" by simp
  have h3: "unat (3 :: 64 word) \<le> MAX_PROOF_SIZE" by (simp add: MAX_PROOF_SIZE_def)
  have t3: "take 3 (replicate MAX_PROOF_SIZE (7 :: byte)) = [7, 7, 7]"
    by (simp add: MAX_PROOF_SIZE_def numeral_3_eq_3)
  from VerifySp1Proof_in_range [OF h1 h2 h3, of "\<lambda>p n. n = 3"]
  obtain c where c: "snd (VerifySp1Proof (\<lambda>p n. n = 3) (replicate MAX_PROOF_SIZE 7) 3) = [c]"
    "forwarded_bytes c = take (unat (3 :: 64 word)) (replicate MAX_PROOF_SIZE 7)"
    "fst (VerifySp1Proof (\<lambda>p n. n = 3) (replicate MAX_PROOF_SIZE 7) 3) = (\<lambda>p n. n = 3) (fst c) (snd c)"
    "unat (snd c) = unat (3 :: 64 word)"
    by blast
  from c(4) have "snd c = 3"
    by (simp add: word_unat_eq_iff)
  with c h1 h2 h3 t3 show ?thesis by auto
qed

section \<open>Theorems: runtime configuration\<close>

text \<open>
  Facts about the library functions: the empty string is the zero address, and a string
  that \<open>HexToECDSA\<close> accepts consists of 64 hexadecimal digits.
\<close>

lemma HexToAddress_empty: "HexToAddress '''' = 0"
  by (simp add: HexToAddress_def FromHex_def BytesToAddress_def big_SetBytes_def has0xPrefix_def)

lemma fromHexChar_x: "fromHexChar CHR ''x'' = None"
  by (simp add: fromHexChar_def)

lemma hex_DecodeString_ok:
  "hex_DecodeString s = (b, None) \<Longrightarrow>
     length s = 2 * length b \<and> (\<forall>c\<in>set s. fromHexChar c \<noteq> None)"
proof (induction s arbitrary: b rule: hex_DecodeString.induct)
  case 1
  then show ?case by simp
next
  case (2 p)
  then show ?case by (simp split: option.splits)
next
  case (3 p q rest)
  then show ?case
    by (auto split: option.splits prod.splits)
qed

lemma HexToECDSA_valid_shape:
  assumes "HexToECDSA s = Inr k"
  shows "length s = 64" and "\<forall>c\<in>set s. fromHexChar c \<noteq> None" and "0 < k" and "k < secp256k1N"
proof -
  obtain b e where be: "hex_DecodeString s = (b, e)" by (cases "hex_DecodeString s")
  with assms have e: "e = None" and k: "ToECDSA b = Inr k"
    by (auto simp: HexToECDSA_def split: option.splits hex_error.splits)
  from k have "length b = 32" and "0 < k" and "k < secp256k1N"
    by (auto simp: ToECDSA_def Let_def split: if_splits)
  with hex_DecodeString_ok [of s b] be e
  show "length s = 64" and "\<forall>c\<in>set s. fromHexChar c \<noteq> None" and "0 < k" and "k < secp256k1N"
    by auto
qed

lemma valid_key_no_prefix:
  assumes "HexToECDSA s = Inr k"
  shows "2 \<le> length s" and "take 2 s \<noteq> ''0x''"
proof -
  from HexToECDSA_valid_shape [OF assms]
  have len: "length s = 64" and hex: "\<forall>c\<in>set s. fromHexChar c \<noteq> None" by auto
  from len show "2 \<le> length s" by simp
  from len obtain c0 c1 rest where s: "s = c0 # c1 # rest"
    by (cases s; cases "tl s") auto
  with hex have "fromHexChar c1 \<noteq> None" by simp
  with fromHexChar_x have "c1 \<noteq> CHR ''x''" by auto
  with s show "take 2 s \<noteq> ''0x''" by (simp add: numeral_2_eq_2)
qed

lemma ecdsaPrivateKeyFromString_prefixed:
  "ecdsaPrivateKeyFromString (''0x'' @ s) = Inr (HexToECDSA s)"
  by (simp add: ecdsaPrivateKeyFromString_def go_slice_to_def go_slice_from_def numeral_2_eq_2)

lemma ecdsaPrivateKeyFromString_unprefixed:
  "2 \<le> length s \<Longrightarrow> take 2 s \<noteq> ''0x'' \<Longrightarrow>
     ecdsaPrivateKeyFromString s = Inr (HexToECDSA s)"
  by (simp add: ecdsaPrivateKeyFromString_def go_slice_to_def)

lemma ecdsaPrivateKeyFromString_short:
  "length s < 2 \<Longrightarrow>
     ecdsaPrivateKeyFromString s = Inl (SliceBoundsOutOfRange 2 (length s))"
  by (simp add: ecdsaPrivateKeyFromString_def go_slice_to_def)

lemma NewConfig_key_only:
  assumes "ecdsaPrivateKeyFromString (ctx EcdsaPrivateKeyFlag_Name) =
             ecdsaPrivateKeyFromString (ctx' EcdsaPrivateKeyFlag_Name)"
    and "ctx ConfigFileFlag_Name = ctx' ConfigFileFlag_Name"
    and "ctx AlignedLayerDeploymentFileFlag_Name = ctx' AlignedLayerDeploymentFileFlag_Name"
    and "ctx SharedAvsContractsDeploymentFileFlag_Name =
           ctx' SharedAvsContractsDeploymentFileFlag_Name"
  shows "NewConfig env ctx = NewConfig env ctx'"
  unfolding NewConfig_def Let_def assms ..

lemma key0_valid:
  "HexToECDSA key0 = Inr 77814517325470205911140941194401928579557062014761831930645393041380819009408"
  unfolding key0_def by code_simp

text \<open>Rules that step through \<open>NewConfig\<close>, one call at a time.\<close>

lemma io_bind_call: "io_bind (io_call e a) f t = f a (t @ [e])"
  by (simp add: io_bind_def io_call_def)

lemma io_bind_call_lib:
  "io_bind (io_call_lib e r) f t =
     (case r of LibReturned a \<Rightarrow> f a (t @ [e]) | LibExit m \<Rightarrow> (ProcessExit m, t @ [e]))"
  by (simp add: io_bind_def io_call_lib_def split: lib_result.splits)

lemma io_bind_return: "io_bind (io_return a) f t = f a t"
  by (simp add: io_bind_def io_return_def)

lemma io_bind_if:
  "io_bind (if c then m else n) f t = (if c then io_bind m f t else io_bind n f t)"
  by simp

lemma io_bind_assoc: "io_bind (io_bind m g) f t = io_bind m (\<lambda>a. io_bind (g a) f) t"
  by (simp add: io_bind_def split: prod.splits outcome.splits)

lemma io_bind_names:
  "io_bind (case x of TheLocals \<Rightarrow> m | PackageLevel p r \<Rightarrow> n p r) f t =
     (case x of TheLocals \<Rightarrow> io_bind m f t | PackageLevel p r \<Rightarrow> io_bind (n p r) f t)"
  by (simp split: undeclared_names.splits)

lemma if_apply: "(if c then f else g) t = (if c then f t else g t)"
  by simp

lemma sum_case_apply:
  "(case r of Inl e \<Rightarrow> f e | Inr x \<Rightarrow> g x) t = (case r of Inl e \<Rightarrow> f e t | Inr x \<Rightarrow> g x t)"
  by (simp split: sum.splits)

lemmas io_steps = io_bind_call io_bind_call_lib io_bind_return io_bind_if io_bind_assoc
  io_bind_names if_apply sum_case_apply io_fail_def io_panic_def io_return_def

text \<open>
  A configuration is returned only after \<open>validate\<close> has accepted it, and its
  \<open>SlasherAddr\<close> is \<open>HexToAddress("")\<close>.
\<close>

lemma NewConfig_Return:
  assumes "fst (NewConfig env ctx t) = Return c"
  shows "validate c = Inr ()" and "SlasherAddr c = HexToAddress ''''"
  using assms
  by (auto simp add: NewConfig_def Let_def io_steps
      split: if_splits sum.splits lib_result.splits undeclared_names.splits)

text \<open>
  If the two undeclared names of line 93 denote package-level variables, the local
  \<open>credibleSquaringDeploymentRaw\<close> is never filled, the service manager address of the
  configuration is the zero address, and \<open>NewConfig\<close> never returns a configuration.
\<close>

lemma NewConfig_PackageLevel_never_returns:
  assumes "alignedLayerDeployment_names env = PackageLevel path raw"
  shows "fst (NewConfig env ctx t) \<noteq> Return c"
  using assms
  by (auto simp add: NewConfig_def Let_def io_steps validate_def HexToAddress_empty
      AlignedLayerDeploymentRaw_zero_def
      split: if_splits sum.splits lib_result.splits)

text \<open>The concrete environments evaluated.\<close>

lemma HexToAddress_0b15: "HexToAddress ''0x0b15'' = 2837"
  by code_simp

lemma HexToAddress_0a55: "HexToAddress ''0x0a55'' = 2645"
  by code_simp

lemma HexToAddress_0c01: "HexToAddress ''0x0c01'' = 3073"
  by code_simp

lemma ctx0_values:
  "ctx0 ConfigFileFlag_Name = ''aggregator.yaml''"
  "ctx0 AlignedLayerDeploymentFileFlag_Name = ''deployment.json''"
  "ctx0 SharedAvsContractsDeploymentFileFlag_Name = ''shared.json''"
  "ctx0 EcdsaPrivateKeyFlag_Name = ''0x'' @ key0"
  by (simp_all add: ctx0_def ConfigFileFlag_Name_def AlignedLayerDeploymentFileFlag_Name_def
      SharedAvsContractsDeploymentFileFlag_Name_def EcdsaPrivateKeyFlag_Name_def)

lemma NewConfig_env0: "fst (NewConfig env0 ctx0 []) = Return config0"
  by (simp add: NewConfig_def Let_def io_steps ctx0_values env0_def
      ecdsaPrivateKeyFromString_prefixed [of key0, simplified] key0_valid validate_def HexToAddress_empty
      HexToAddress_0b15 HexToAddress_0a55 HexToAddress_0c01 config0_def scalar0_def)

lemma NewConfig_env_missing:
  "NewConfig env_missing ctx0 [] =
     (Panic (PanicString ''Path deployment.json does not exist''),
      [Call_ReadYamlConfig ''aggregator.yaml'',
       Call_Println
         \<lparr>Environment_raw = ''development'', EthRpcUrl_raw = ''http://localhost:8545'',
          EthWsUrl_raw = ''ws://localhost:8545'',
          AggregatorServerIpPortAddr_raw = ''localhost:8090'',
          RegisterOperatorOnStartup_raw = True,
          BLSPubkeyCompendiumAddr_raw = ''0x0c01'',
          AvsServiceManagerAddress_raw = ''0x0a55'',
          EnableMetrics_raw = False\<rparr>,
       Call_Stat ''deployment.json''])"
  by (simp add: NewConfig_def Let_def io_steps ctx0_values env0_def env_missing_def)

text \<open>
  C4. The empty string and the one-character string \<open>a\<close> are not valid scalar
  encodings, yet with them as the private key \<open>NewConfig\<close> neither returns an error nor
  a configuration: the slice expression of line 120 panics.
\<close>

theorem NewConfig_short_key_panics:
  "HexToECDSA '''' = Inl (InvalidKeyLength 256) \<and>
   HexToECDSA ''a'' = Inl InvalidHexData \<and>
   ecdsaPrivateKeyFromString '''' = Inl (SliceBoundsOutOfRange 2 0) \<and>
   ecdsaPrivateKeyFromString ''a'' = Inl (SliceBoundsOutOfRange 2 1) \<and>
   fst (NewConfig env0 (ctx0(EcdsaPrivateKeyFlag_Name := '''')) []) =
     Panic (SliceBoundsOutOfRange 2 0) \<and>
   fst (NewConfig env0 (ctx0(EcdsaPrivateKeyFlag_Name := ''a'')) []) =
     Panic (SliceBoundsOutOfRange 2 1)"
proof -
  have "HexToECDSA '''' = Inl (InvalidKeyLength 256)"
    by (simp add: HexToECDSA_def ToECDSA_def)
  moreover have "HexToECDSA ''a'' = Inl InvalidHexData"
    by (simp add: HexToECDSA_def fromHexChar_def)
  moreover have "ecdsaPrivateKeyFromString '''' = Inl (SliceBoundsOutOfRange 2 0)"
    using ecdsaPrivateKeyFromString_short [of "''''"] by simp
  moreover have "ecdsaPrivateKeyFromString ''a'' = Inl (SliceBoundsOutOfRange 2 1)"
    using ecdsaPrivateKeyFromString_short [of "''a''"] by simp
  moreover have "fst (NewConfig env0 (ctx0(EcdsaPrivateKeyFlag_Name := '''')) []) =
      Panic (SliceBoundsOutOfRange 2 0)"
    by (simp add: NewConfig_def Let_def io_steps ctx0_def env0_def
        ConfigFileFlag_Name_def AlignedLayerDeploymentFileFlag_Name_def
        SharedAvsContractsDeploymentFileFlag_Name_def EcdsaPrivateKeyFlag_Name_def
        ecdsaPrivateKeyFromString_short)
  moreover have "fst (NewConfig env0 (ctx0(EcdsaPrivateKeyFlag_Name := ''a'')) []) =
      Panic (SliceBoundsOutOfRange 2 1)"
    by (simp add: NewConfig_def Let_def io_steps ctx0_def env0_def
        ConfigFileFlag_Name_def AlignedLayerDeploymentFileFlag_Name_def
        SharedAvsContractsDeploymentFileFlag_Name_def EcdsaPrivateKeyFlag_Name_def
        ecdsaPrivateKeyFromString_short)
  ultimately show ?thesis by blast
qed

text \<open>
  C6. \<open>validate\<close> accepts a configuration exactly when both required addresses, the
  operator-state retriever and the service manager, differ from the zero address; a
  zero address in either makes it panic; and whenever \<open>NewConfig\<close> returns a
  configuration, both addresses of that configuration are non-zero.
\<close>

theorem validate_required_addresses:
  "(validate c = Inr () \<longleftrightarrow>
      BlsOperatorStateRetrieverAddr c \<noteq> 0 \<and> AlignedLayerServiceManagerAddr c \<noteq> 0) \<and>
   (BlsOperatorStateRetrieverAddr c = 0 \<or> AlignedLayerServiceManagerAddr c = 0 \<longrightarrow>
      (\<exists>m. validate c = Inl (PanicString m))) \<and>
   (fst (NewConfig env ctx t) = Return c' \<longrightarrow>
      BlsOperatorStateRetrieverAddr c' \<noteq> 0 \<and> AlignedLayerServiceManagerAddr c' \<noteq> 0)"
proof -
  have v: "\<And>x. validate x = Inr () \<longleftrightarrow>
      BlsOperatorStateRetrieverAddr x \<noteq> 0 \<and> AlignedLayerServiceManagerAddr x \<noteq> 0"
    by (simp add: validate_def HexToAddress_empty)
  have p: "BlsOperatorStateRetrieverAddr c = 0 \<or> AlignedLayerServiceManagerAddr c = 0 \<longrightarrow>
      (\<exists>m. validate c = Inl (PanicString m))"
    by (simp add: validate_def HexToAddress_empty)
  have n: "fst (NewConfig env ctx t) = Return c' \<longrightarrow>
      BlsOperatorStateRetrieverAddr c' \<noteq> 0 \<and> AlignedLayerServiceManagerAddr c' \<noteq> 0"
    using NewConfig_Return(1) [of env ctx t c'] v [of c'] by blast
  from v [of c] p n show ?thesis by blast
qed

theorem validate_required_addresses_witness:
  "fst (NewConfig env0 ctx0 []) = Return config0 \<and>
   validate config0 = Inr () \<and>
   BlsOperatorStateRetrieverAddr config0 = 2837 \<and>
   AlignedLayerServiceManagerAddr config0 = 2645 \<and>
   AlignedLayerServiceManagerAddr (config0\<lparr>AlignedLayerServiceManagerAddr := 0\<rparr>) = 0 \<and>
   validate (config0\<lparr>AlignedLayerServiceManagerAddr := 0\<rparr>) =
     Inl (PanicString ''Config: AlignedLayerServiceManagerAddr is required'') \<and>
   validate (config0\<lparr>BlsOperatorStateRetrieverAddr := 0\<rparr>) =
     Inl (PanicString ''Config: BLSOperatorStateRetrieverAddr is required'')"
proof -
  have r: "fst (NewConfig env0 ctx0 []) = Return config0" by (rule NewConfig_env0)
  have a: "BlsOperatorStateRetrieverAddr config0 = 2837"
    "AlignedLayerServiceManagerAddr config0 = 2645"
    by (simp_all add: config0_def)
  from validate_required_addresses
         [where c = config0 and env = env0 and ctx = ctx0 and t = "[]" and c' = config0] r a
  have ok: "validate config0 = Inr ()" by simp
  from validate_required_addresses
         [where c = "config0\<lparr>AlignedLayerServiceManagerAddr := 0\<rparr>" and env = env0
            and ctx = ctx0 and t = "[]" and c' = config0]
  obtain m where m: "validate (config0\<lparr>AlignedLayerServiceManagerAddr := 0\<rparr>) =
      Inl (PanicString m)"
    by auto
  then have m': "validate (config0\<lparr>AlignedLayerServiceManagerAddr := 0\<rparr>) =
      Inl (PanicString ''Config: AlignedLayerServiceManagerAddr is required'')"
    by (simp add: validate_def HexToAddress_empty config0_def)
  have m'': "validate (config0\<lparr>BlsOperatorStateRetrieverAddr := 0\<rparr>) =
      Inl (PanicString ''Config: BLSOperatorStateRetrieverAddr is required'')"
    by (simp add: validate_def HexToAddress_empty)
  from r ok a m' m'' show ?thesis by simp
qed

text \<open>
  C10. Whenever \<open>NewConfig\<close> returns a configuration, its \<open>SlasherAddr\<close> is the zero
  address, whatever the inputs; and \<open>validate\<close> does not look at \<open>SlasherAddr\<close>: changing
  the field does not change its verdict.
\<close>

theorem NewConfig_SlasherAddr_zero:
  "(fst (NewConfig env ctx t) = Return c \<longrightarrow> SlasherAddr c = 0) \<and>
   validate (c'\<lparr>SlasherAddr := a\<rparr>) = validate c'"
proof -
  have "fst (NewConfig env ctx t) = Return c \<longrightarrow> SlasherAddr c = 0"
    using NewConfig_Return(2) [of env ctx t c] by (simp add: HexToAddress_empty)
  moreover have "validate (c'\<lparr>SlasherAddr := a\<rparr>) = validate c'"
    by (simp add: validate_def)
  ultimately show ?thesis by blast
qed

theorem NewConfig_SlasherAddr_zero_witness:
  "fst (NewConfig env0 ctx0 []) = Return config0 \<and> SlasherAddr config0 = 0 \<and>
   validate (config0\<lparr>SlasherAddr := 5\<rparr>) = Inr ()"
proof -
  have r: "fst (NewConfig env0 ctx0 []) = Return config0" by (rule NewConfig_env0)
  have v: "validate config0 = Inr ()"
    by (simp add: validate_def HexToAddress_empty config0_def)
  from NewConfig_SlasherAddr_zero
         [where env = env0 and ctx = ctx0 and t = "[]" and c = config0 and c' = config0
            and a = 5] r v
  show ?thesis by simp
qed

lemma NewConfig_Return_identity:
  assumes "fst (NewConfig env ctx t) = Return c"
    and "ecdsaPrivateKeyFromString (ctx EcdsaPrivateKeyFlag_Name) = Inr (Inr k)"
  shows "EcdsaPrivateKey c = Some k" and "EcdsaPrivateKeyToAddress env k = Inr (OperatorAddress c)"
  using assms
  by (auto simp add: NewConfig_def Let_def io_steps
      split: if_splits sum.splits lib_result.splits undeclared_names.splits)

text \<open>
  C8. Let \<open>s\<close> be a valid scalar encoding, that is, \<open>HexToECDSA\<close> accepts it with scalar
  \<open>k\<close>. Then the key string \<open>0x\<close> followed by \<open>s\<close> and the key string \<open>s\<close> both yield
  the private key \<open>k\<close>; \<open>NewConfig\<close> behaves the same on both (same outcome, same calls
  with the same arguments, among them the derivation of the address from \<open>k\<close>); and a
  configuration returned for the prefixed string holds the key \<open>k\<close> and the address
  derived from \<open>k\<close>.
\<close>

theorem NewConfig_0x_prefix:
  assumes "HexToECDSA s = Inr k"
  shows "ecdsaPrivateKeyFromString (''0x'' @ s) = Inr (Inr k) \<and>
         ecdsaPrivateKeyFromString s = Inr (Inr k) \<and>
         NewConfig env (ctx(EcdsaPrivateKeyFlag_Name := ''0x'' @ s)) =
           NewConfig env (ctx(EcdsaPrivateKeyFlag_Name := s)) \<and>
         (fst (NewConfig env (ctx(EcdsaPrivateKeyFlag_Name := ''0x'' @ s)) t) = Return c \<longrightarrow>
            EcdsaPrivateKey c = Some k \<and>
            EcdsaPrivateKeyToAddress env k = Inr (OperatorAddress c))"
proof -
  have p: "ecdsaPrivateKeyFromString (''0x'' @ s) = Inr (Inr k)"
    using assms ecdsaPrivateKeyFromString_prefixed [of s] by simp
  have u: "ecdsaPrivateKeyFromString s = Inr (Inr k)"
    using assms valid_key_no_prefix [OF assms] ecdsaPrivateKeyFromString_unprefixed [of s]
    by simp
  have names: "ConfigFileFlag_Name \<noteq> EcdsaPrivateKeyFlag_Name"
    "AlignedLayerDeploymentFileFlag_Name \<noteq> EcdsaPrivateKeyFlag_Name"
    "SharedAvsContractsDeploymentFileFlag_Name \<noteq> EcdsaPrivateKeyFlag_Name"
    by (simp_all add: ConfigFileFlag_Name_def AlignedLayerDeploymentFileFlag_Name_def
        SharedAvsContractsDeploymentFileFlag_Name_def EcdsaPrivateKeyFlag_Name_def)
  have e: "NewConfig env (ctx(EcdsaPrivateKeyFlag_Name := ''0x'' @ s)) =
      NewConfig env (ctx(EcdsaPrivateKeyFlag_Name := s))"
    by (rule NewConfig_key_only) (use p u names in simp_all)
  have r: "fst (NewConfig env (ctx(EcdsaPrivateKeyFlag_Name := ''0x'' @ s)) t) = Return c \<longrightarrow>
      EcdsaPrivateKey c = Some k \<and> EcdsaPrivateKeyToAddress env k = Inr (OperatorAddress c)"
    using NewConfig_Return_identity
            [of env "ctx(EcdsaPrivateKeyFlag_Name := ''0x'' @ s)" t c k] p
    by simp
  from p u e r show ?thesis by blast
qed

theorem NewConfig_0x_prefix_witness:
  "HexToECDSA key0 = Inr scalar0 \<and>
   ecdsaPrivateKeyFromString (''0x'' @ key0) = Inr (Inr scalar0) \<and>
   ecdsaPrivateKeyFromString key0 = Inr (Inr scalar0) \<and>
   fst (NewConfig env0 (ctx0(EcdsaPrivateKeyFlag_Name := ''0x'' @ key0)) []) = Return config0 \<and>
   fst (NewConfig env0 (ctx0(EcdsaPrivateKeyFlag_Name := key0)) []) = Return config0 \<and>
   EcdsaPrivateKey config0 = Some scalar0 \<and>
   OperatorAddress config0 = word_of_int scalar0"
proof -
  have v: "HexToECDSA key0 = Inr scalar0"
    using key0_valid by (simp add: scalar0_def)
  have c: "ctx0(EcdsaPrivateKeyFlag_Name := ''0x'' @ key0) = ctx0"
    by (rule ext) (simp add: ctx0_def EcdsaPrivateKeyFlag_Name_def)
  have r: "fst (NewConfig env0 ctx0 []) = Return config0" by (rule NewConfig_env0)
  have f: "EcdsaPrivateKey config0 = Some scalar0" "OperatorAddress config0 = word_of_int scalar0"
    by (simp_all add: config0_def)
  from NewConfig_0x_prefix [OF v, where env = env0 and ctx = ctx0 and t = "[]" and c = config0]
    c r f v
  show ?thesis by simp
qed




section \<open>Theorems: contract provisioning script\<close>

text \<open>
  Rules that step through a sequence of statements, one statement at a time. With them
  the equation of \<open>sc_seq\<close> for a non-empty sequence is no longer needed as a
  simplification rule.
\<close>

lemma sc_seq_new_assign:
  "sc_seq (new_assign ch args store # ms) s =
     (if tx_succeeds ch (length (txs s))
      then sc_seq ms
             (store (create_address ch (length (txs s)))
                (s\<lparr>txs := txs s @ [Create (args s) (create_address ch (length (txs s)))]\<rparr>))
      else (None, s))"
  by (simp add: new_assign_def Let_def)

lemma sc_seq_external_call:
  "sc_seq (external_call ch target_call # ms) s =
     (if tx_succeeds ch (length (txs s))
      then sc_seq ms
             (s\<lparr>txs := txs s @ [CallTo (fst (target_call s)) (snd (target_call s))]\<rparr>)
      else (None, s))"
  by (simp add: external_call_def Let_def)

lemma sc_seq_internal_call: "sc_seq (internal_call f # ms) s = sc_seq (f s # ms) s"
  by (simp add: internal_call_def)

lemma sc_seq_sc_seq: "sc_seq (sc_seq xs # ms) s = sc_seq (xs @ ms) s"
proof (induction xs arbitrary: s)
  case Nil
  then show ?case by simp
next
  case (Cons x xs)
  show ?case
  proof (cases "x s")
    case (Pair r s1)
    show ?thesis
    proof (cases r)
      case None
      with Pair show ?thesis by simp
    next
      case (Some u)
      with Pair Cons.IH [of s1] show ?thesis by simp
    qed
  qed
qed

lemma sc_seq_serializeAddress:
  "sc_seq (vm_serializeAddress ok vk v store # ms) s =
     sc_seq ms
       (store (JObject (json_insert vk (JAddress (v s)) (vm_json s ok)))
          (s\<lparr>vm_json := (vm_json s)(ok := json_insert vk (JAddress (v s)) (vm_json s ok))\<rparr>))"
  by (simp add: vm_serializeAddress_def Let_def)

lemma sc_seq_serializeString:
  "sc_seq (vm_serializeString ok vk v store # ms) s =
     sc_seq ms
       (store (JObject (json_insert vk (v s) (vm_json s ok)))
          (s\<lparr>vm_json := (vm_json s)(ok := json_insert vk (v s) (vm_json s ok))\<rparr>))"
  by (simp add: vm_serializeString_def Let_def)

lemma sc_seq_writeOutput:
  "sc_seq (writeOutput j name # ms) s =
     sc_seq ms (s\<lparr>written := written s @ [(j s, name)]\<rparr>)"
  by (simp add: writeOutput_def)

lemma sc_seq_startBroadcast:
  "sc_seq (vm_startBroadcast # ms) s = sc_seq ms (s\<lparr>broadcasting := True\<rparr>)"
  by (simp add: vm_startBroadcast_def)

lemma sc_seq_stopBroadcast:
  "sc_seq (vm_stopBroadcast # ms) s = sc_seq ms (s\<lparr>broadcasting := False\<rparr>)"
  by (simp add: vm_stopBroadcast_def)

declare sc_seq.simps(2) [simp del]

lemmas script_steps = sc_seq_new_assign sc_seq_external_call sc_seq_internal_call
  sc_seq_sc_seq sc_seq_serializeAddress sc_seq_serializeString sc_seq_writeOutput
  sc_seq_startBroadcast sc_seq_stopBroadcast discard_def

lemmas script_defs = run_def deployErc20AndStrategyAndWhitelistStrategy_def
  deployCredibleAlignedLayerContracts_def deployer_init_def Let_def

text \<open>What holds of every run, whether it completes or reverts.\<close>

lemma run_every:
  assumes "run ch inp deployer_init = (r, s)"
  shows "completes_before is_auxiliary is_proxy_shell (txs s) \<and>
         (list_ex is_proxy_shell (txs s) \<longrightarrow> length (filter is_auxiliary (txs s)) = 3) \<and>
         shells_first s [] (txs s) \<and>
         list_all (constructor_refs_ok s) (txs s)"
  using assms [symmetric]
  by (simp add: script_defs script_steps shell_deployed_def upgradeable_components_def
      empty_contracts_def split: if_splits)

text \<open>What holds of a run that completes.\<close>

lemma run_completed:
  assumes "run ch inp deployer_init = (Some (), s)"
  shows "written s =
     [(JObject [(''addresses'', JObject
         [(''erc20Mock'', JAddress (erc20Mock s)),
          (''erc20MockStrategy'', JAddress (erc20MockStrategy s)),
          (''alignedLayerServiceManager'', JAddress (credibleAlignedLayerServiceManager s)),
          (''alignedLayerServiceManagerImplementation'',
             JAddress (credibleAlignedLayerServiceManagerImplementation s)),
          (''alignedLayerTaskManager'', JAddress (credibleAlignedLayerTaskManager s)),
          (''alignedLayerTaskManagerImplementation'',
             JAddress (credibleAlignedLayerTaskManagerImplementation s)),
          (''registryCoordinator'', JAddress (registryCoordinator s)),
          (''registryCoordinatorImplementation'',
             JAddress (registryCoordinatorImplementation s))])],
       ''aligned_layer_avs_deployment_output'')] \<and>
     (\<exists>sm sl.
        Create (New_StakeRegistry (registryCoordinator s) sm
                  (credibleAlignedLayerServiceManager s)) (stakeRegistryImplementation s)
          \<in> set (txs s) \<and>
        Create (New_BLSRegistryCoordinatorWithIndices sl
                  (credibleAlignedLayerServiceManager s) (stakeRegistry s)
                  (blsPubkeyRegistry s) (indexRegistry s))
               (registryCoordinatorImplementation s)
          \<in> set (txs s))"
  using assms [symmetric]
  by (simp add: script_defs script_steps split: if_splits)

text \<open>The run on \<open>chain0\<close> with \<open>inputs0\<close>, evaluated.\<close>

lemma run_chain0:
  assumes "run chain0 inputs0 deployer_init = (r, s)"
  shows "r = Some () \<and> txs s = trace0 \<and>
         written s = [(manifest0, ''aligned_layer_avs_deployment_output'')] \<and>
         deployed_components s = [4102, 4103, 4104, 4105, 4106, 4107, 4096, 4097] \<and>
         upgradeable_components s = [4102, 4103, 4104, 4105, 4106, 4107] \<and>
         credibleAlignedLayerProxyAdmin s = 4099 \<and>
         stakeRegistryImplementation s = 4108 \<and>
         registryCoordinatorImplementation s = 4110"
  using assms [symmetric]
  by (simp add: script_defs script_steps chain0_def inputs0_def trace0_def manifest0_def
      deployed_components_def upgradeable_components_def ether_def
      TASK_RESPONSE_WINDOW_BLOCK_def QUORUM_THRESHOLD_PERCENTAGE_def AGGREGATOR_ADDR_def
      TASK_GENERATOR_ADDR_def)

text \<open>What the scan \<open>shells_first\<close> says about each position of the sequence.\<close>

lemma shells_first_index:
  "shells_first s pre tr \<Longrightarrow> j < length tr \<Longrightarrow> is_implementation_creation (tr ! j) \<Longrightarrow>
     list_all (shell_deployed s (pre @ take j tr)) (upgradeable_components s)"
proof (induction tr arbitrary: pre j)
  case Nil
  then show ?case by simp
next
  case (Cons t ts)
  show ?case
  proof (cases j)
    case 0
    with Cons.prems show ?thesis by simp
  next
    case (Suc i)
    with Cons.prems have "shells_first s (pre @ [t]) ts" "i < length ts"
      "is_implementation_creation (ts ! i)"
      by simp_all
    from Cons.IH [OF this] Suc show ?thesis by simp
  qed
qed

lemma run_chain0_pair:
  "run chain0 inputs0 deployer_init = (Some (), snd (run chain0 inputs0 deployer_init))"
  using run_chain0 [of "fst (run chain0 inputs0 deployer_init)"
      "snd (run chain0 inputs0 deployer_init)"]
  by (simp add: prod_eq_iff)

lemmas run_chain0_facts = run_chain0 [OF run_chain0_pair]

text \<open>
  C2, as the specification states it, fails: in the run on \<open>chain0\<close> the deployment of
  the proxy shells is not over when the auxiliary resources are deployed. The three
  auxiliary operations come first, the six proxy shells after them.
\<close>

theorem run_shells_before_auxiliary_counterexample:
  "\<not> completes_before is_proxy_shell is_auxiliary
       (txs (snd (run chain0 inputs0 deployer_init)))"
  using run_chain0_facts by (simp add: trace0_def)

text \<open>
  C2 (amended): in every run, completed or reverted, the auxiliary resources (mock
  ERC20 token, its strategy proxy, registration with the strategy manager's whitelist)
  are deployed before the first proxy shell: no auxiliary operation follows the
  creation of a proxy shell, and once a proxy shell exists all three auxiliary
  operations have been performed.
\<close>

theorem run_auxiliary_before_shells:
  assumes "run ch inp deployer_init = (r, s)"
  shows "completes_before is_auxiliary is_proxy_shell (txs s) \<and>
         (list_ex is_proxy_shell (txs s) \<longrightarrow> length (filter is_auxiliary (txs s)) = 3)"
  using run_every [OF assms] by blast

theorem run_auxiliary_before_shells_witness:
  "run chain0 inputs0 deployer_init = (Some (), snd (run chain0 inputs0 deployer_init)) \<and>
   txs (snd (run chain0 inputs0 deployer_init)) = trace0 \<and>
   completes_before is_auxiliary is_proxy_shell trace0 \<and>
   list_ex is_proxy_shell trace0 \<and>
   length (filter is_auxiliary trace0) = 3"
proof -
  have t: "txs (snd (run chain0 inputs0 deployer_init)) = trace0"
    using run_chain0_facts by simp
  have e: "list_ex is_proxy_shell trace0"
    by (simp add: trace0_def)
  from run_auxiliary_before_shells [OF run_chain0_pair] t e run_chain0_pair
  show ?thesis by simp
qed




text \<open>
  C7: in every run, completed or reverted, whenever an implementation contract is
  created, the proxies of all six upgradeable components have already been created,
  each without initializer data, bound to the shared proxy admin and pointing at an
  \<open>EmptyContract\<close>; every constructor argument of an implementation that refers to a
  component is the proxy address of that component; and in a completed run the
  implementations of the stake registry and of the registry coordinator have both been
  created, each with the other's proxy address as constructor argument.
\<close>

theorem run_shells_before_implementations:
  assumes "run ch inp deployer_init = (r, s)"
  shows "(\<forall>j<length (txs s). is_implementation_creation (txs s ! j) \<longrightarrow>
            list_all (shell_deployed s (take j (txs s))) (upgradeable_components s)) \<and>
         list_all (constructor_refs_ok s) (txs s) \<and>
         (r = Some () \<longrightarrow>
            (\<exists>sm sl.
               Create (New_StakeRegistry (registryCoordinator s) sm
                         (credibleAlignedLayerServiceManager s))
                      (stakeRegistryImplementation s) \<in> set (txs s) \<and>
               Create (New_BLSRegistryCoordinatorWithIndices sl
                         (credibleAlignedLayerServiceManager s) (stakeRegistry s)
                         (blsPubkeyRegistry s) (indexRegistry s))
                      (registryCoordinatorImplementation s) \<in> set (txs s)))"
proof -
  have a: "\<forall>j<length (txs s). is_implementation_creation (txs s ! j) \<longrightarrow>
      list_all (shell_deployed s (take j (txs s))) (upgradeable_components s)"
    using run_every [OF assms] shells_first_index [of s "[]" "txs s"] by simp
  have b: "list_all (constructor_refs_ok s) (txs s)"
    using run_every [OF assms] by blast
  have c: "r = Some () \<longrightarrow>
      (\<exists>sm sl.
         Create (New_StakeRegistry (registryCoordinator s) sm
                   (credibleAlignedLayerServiceManager s))
                (stakeRegistryImplementation s) \<in> set (txs s) \<and>
         Create (New_BLSRegistryCoordinatorWithIndices sl
                   (credibleAlignedLayerServiceManager s) (stakeRegistry s)
                   (blsPubkeyRegistry s) (indexRegistry s))
                (registryCoordinatorImplementation s) \<in> set (txs s))"
  proof
    assume "r = Some ()"
    with assms have "run ch inp deployer_init = (Some (), s)" by simp
    from run_completed [OF this] show "\<exists>sm sl.
         Create (New_StakeRegistry (registryCoordinator s) sm
                   (credibleAlignedLayerServiceManager s))
                (stakeRegistryImplementation s) \<in> set (txs s) \<and>
         Create (New_BLSRegistryCoordinatorWithIndices sl
                   (credibleAlignedLayerServiceManager s) (stakeRegistry s)
                   (blsPubkeyRegistry s) (indexRegistry s))
                (registryCoordinatorImplementation s) \<in> set (txs s)"
      by blast
  qed
  from a b c show ?thesis by blast
qed

theorem run_shells_before_implementations_witness:
  "run chain0 inputs0 deployer_init = (Some (), snd (run chain0 inputs0 deployer_init)) \<and>
   txs (snd (run chain0 inputs0 deployer_init)) = trace0 \<and>
   trace0 ! 12 = Create (New_StakeRegistry 4104 282 4102) 4108 \<and>
   trace0 ! 14 = Create (New_BLSRegistryCoordinatorWithIndices 274 4102 4107 4105 4106) 4110 \<and>
   upgradeable_components (snd (run chain0 inputs0 deployer_init)) =
     [4102, 4103, 4104, 4105, 4106, 4107] \<and>
   list_all (shell_deployed (snd (run chain0 inputs0 deployer_init)) (take 12 trace0))
     [4102, 4103, 4104, 4105, 4106, 4107] \<and>
   list_all (constructor_refs_ok (snd (run chain0 inputs0 deployer_init))) trace0"
proof -
  let ?s = "snd (run chain0 inputs0 deployer_init)"
  have t: "txs ?s = trace0" and u: "upgradeable_components ?s = [4102, 4103, 4104, 4105, 4106, 4107]"
    using run_chain0_facts by simp_all
  have n: "trace0 ! 12 = Create (New_StakeRegistry 4104 282 4102) 4108"
    "trace0 ! 14 = Create (New_BLSRegistryCoordinatorWithIndices 274 4102 4107 4105 4106) 4110"
    "12 < length trace0"
    by (simp_all add: trace0_def)
  from run_shells_before_implementations [OF run_chain0_pair] t
  have all: "\<forall>j<length trace0. is_implementation_creation (trace0 ! j) \<longrightarrow>
      list_all (shell_deployed ?s (take j trace0)) (upgradeable_components ?s)"
    and refs: "list_all (constructor_refs_ok ?s) trace0"
    by simp_all
  from all n have "list_all (shell_deployed ?s (take 12 trace0)) (upgradeable_components ?s)"
    by simp
  with u have "list_all (shell_deployed ?s (take 12 trace0)) [4102, 4103, 4104, 4105, 4106, 4107]"
    by simp
  with run_chain0_pair t u n refs show ?thesis by simp
qed

end
